theory Spec2Isabelle
  imports Main "HOL-Library.Sublist"
begin

section \<open>Go library functions used by the package\<close>

text \<open>
  Go strings are byte sequences; they are modelled as \<^typ>\<open>string\<close> (a list of 8-bit
  characters). The functions of this section are the pieces of the Go standard library
  (\<^verbatim>\<open>strings\<close>, \<^verbatim>\<open>strconv\<close>) that the package calls, written out from their
  documented behaviour.
\<close>

text \<open>\<^verbatim>\<open>strings.HasPrefix(s, p)\<close> and \<^verbatim>\<open>strings.HasSuffix(s, p)\<close>.\<close>

definition HasPrefix :: "string \<Rightarrow> string \<Rightarrow> bool" where
  "HasPrefix s p = (take (length p) s = p)"

definition HasSuffix :: "string \<Rightarrow> string \<Rightarrow> bool" where
  "HasSuffix s p = (length p \<le> length s \<and> drop (length s - length p) s = p)"

text \<open>
  \<^verbatim>\<open>strings.LastIndex(s, sep)\<close>: the index of the last occurrence of \<open>sep\<close> in \<open>s\<close>,
  or \<open>-1\<close> when there is none.
\<close>

definition LastIndex :: "string \<Rightarrow> string \<Rightarrow> int" where
  "LastIndex s sep =
     (case filter (\<lambda>i. take (length sep) (drop i s) = sep) (rev [0..<Suc (length s - length sep)]) of
        [] \<Rightarrow> -1
      | i # _ \<Rightarrow> int i)"

text \<open>
  \<^verbatim>\<open>strings.Split(s, sep)\<close> for a one-byte separator (the package splits on
  \<^verbatim>\<open>"\n"\<close> and on \<^verbatim>\<open>";"\<close>): the pieces between the separators. A string without
  the separator, the empty string included, gives the one-element slice holding the
  string itself.
\<close>

fun Split :: "string \<Rightarrow> char \<Rightarrow> string list" where
  "Split [] c = [[]]"
| "Split (x # xs) c =
     (if x = c then [] # Split xs c
      else (case Split xs c of
              [] \<Rightarrow> [[x]]
            | p # ps \<Rightarrow> (x # p) # ps))"

text \<open>
  \<^verbatim>\<open>strings.TrimSpace(s)\<close>: leading and trailing white space removed, white space
  being the code points for which \<^verbatim>\<open>unicode.IsSpace\<close> holds. \<open>spaceRunes\<close> lists
  their UTF-8 encodings: the six ASCII bytes (tab, line feed, vertical tab, form feed,
  carriage return, space), then U+0085, U+00A0, U+1680, U+2000 to U+200A, U+2028,
  U+2029, U+202F, U+205F and U+3000. \<open>trimLeft\<close> removes, as long as there is one, an
  encoding of the list from the front of the string; the library decodes the string
  rune by rune, and a rune is a space exactly when the bytes at hand start with one of
  these encodings. At the end of the string the library decodes the last rune, which
  is a space exactly when the string ends with one of the encodings.
\<close>

definition spaceRunes :: "string list" where
  "spaceRunes =
     [[CHR 0x09], [CHR 0x0A], [CHR 0x0B], [CHR 0x0C], [CHR 0x0D], [CHR 0x20],
      [CHR 0xC2, CHR 0x85], [CHR 0xC2, CHR 0xA0], [CHR 0xE1, CHR 0x9A, CHR 0x80],
      [CHR 0xE2, CHR 0x80, CHR 0x80], [CHR 0xE2, CHR 0x80, CHR 0x81], [CHR 0xE2, CHR 0x80, CHR 0x82],
      [CHR 0xE2, CHR 0x80, CHR 0x83], [CHR 0xE2, CHR 0x80, CHR 0x84], [CHR 0xE2, CHR 0x80, CHR 0x85],
      [CHR 0xE2, CHR 0x80, CHR 0x86], [CHR 0xE2, CHR 0x80, CHR 0x87], [CHR 0xE2, CHR 0x80, CHR 0x88],
      [CHR 0xE2, CHR 0x80, CHR 0x89], [CHR 0xE2, CHR 0x80, CHR 0x8A], [CHR 0xE2, CHR 0x80, CHR 0xA8],
      [CHR 0xE2, CHR 0x80, CHR 0xA9], [CHR 0xE2, CHR 0x80, CHR 0xAF], [CHR 0xE2, CHR 0x81, CHR 0x9F],
      [CHR 0xE3, CHR 0x80, CHR 0x80]]"

function trimLeft :: "string list \<Rightarrow> string \<Rightarrow> string" where
  "trimLeft runes s =
     (case find (\<lambda>p. p \<noteq> [] \<and> take (length p) s = p) runes of
        None \<Rightarrow> s
      | Some p \<Rightarrow> trimLeft runes (drop (length p) s))"
  by pat_completeness auto
termination
proof (relation "measure (\<lambda>(runes, s). length s)")
  show "wf (measure (\<lambda>(runes, s). length s))" by simp
next
  fix runes :: "string list" and s p :: string
  assume "find (\<lambda>p. p \<noteq> [] \<and> take (length p) s = p) runes = Some p"
  then have "p \<noteq> []" and t: "take (length p) s = p"
    by (auto simp add: find_Some_iff)
  from t have "length (take (length p) s) = length p" by simp
  then have "length p \<le> length s" by simp
  with \<open>p \<noteq> []\<close> show "((runes, drop (length p) s), (runes, s)) \<in> measure (\<lambda>(runes, s). length s)"
    by (cases p) auto
qed

declare trimLeft.simps [simp del]

definition TrimSpace :: "string \<Rightarrow> string" where
  "TrimSpace s = rev (trimLeft (map rev spaceRunes) (rev (trimLeft spaceRunes s)))"

text \<open>
  \<^verbatim>\<open>strconv.ParseInt(s, 10, 32)\<close>: an optional sign, then one or more decimal digits;
  the value must fit a signed 32-bit integer (\<open>2147483648\<close> is \<open>2 ^ 31\<close>). \<open>None\<close> stands for the error return
  (\<^verbatim>\<open>ErrSyntax\<close> or \<^verbatim>\<open>ErrRange\<close>; the callers only test \<^verbatim>\<open>err != nil\<close>).
\<close>

definition isDigit :: "char \<Rightarrow> bool" where
  "isDigit c = (48 \<le> (of_char c :: nat) \<and> (of_char c :: nat) \<le> 57)"

definition digitVal :: "char \<Rightarrow> int" where
  "digitVal c = of_char c - 48"

definition decimalVal :: "string \<Rightarrow> int" where
  "decimalVal ds = foldl (\<lambda>n c. 10 * n + digitVal c) 0 ds"

definition ParseInt :: "string \<Rightarrow> int option" where
  "ParseInt s =
     (case s of
        [] \<Rightarrow> None
      | c # r \<Rightarrow>
          (let neg = (c = CHR ''-'');
               ds = (if c = CHR ''+'' \<or> c = CHR ''-'' then r else s)
           in if ds = [] \<or> \<not> list_all isDigit ds then None
              else (let un = decimalVal ds
                    in if \<not> neg \<and> un \<ge> 2147483648 then None
                       else if neg \<and> un > 2147483648 then None
                       else Some (if neg then - un else un))))"

section \<open>Widgets and widget collections\<close>

text \<open>
  \<^verbatim>\<open>WidgetType\<close> and its four constants.
\<close>

type_synonym WidgetType = string

definition IntOverTimeWidgetID :: WidgetType where
  "IntOverTimeWidgetID = ''TIMESERIES''"

definition IntOverRegionID :: WidgetType where
  "IntOverRegionID = ''GEO_MAP''"

definition RelatedQueriesID :: WidgetType where
  "RelatedQueriesID = ''RELATED_QUERIES''"

definition RelatedTopicsID :: WidgetType where
  "RelatedTopicsID = ''RELATED_TOPICS''"

definition compareDataMode :: string where
  "compareDataMode = ''PERCENTAGES''"

text \<open>
  A Go \<^verbatim>\<open>map[string]string\<close> is \<open>None\<close> when it is the nil map and \<open>Some kvs\<close>, an
  association list with distinct keys, otherwise. Reading and \<^verbatim>\<open>len\<close> work on the nil
  map; assigning to an entry of the nil map panics.
\<close>

type_synonym gomap = "(string \<times> string) list option"

definition len_map :: "gomap \<Rightarrow> nat" where
  "len_map m = (case m of None \<Rightarrow> 0 | Some kvs \<Rightarrow> length kvs)"

fun assign :: "string \<Rightarrow> string \<Rightarrow> (string \<times> string) list \<Rightarrow> (string \<times> string) list" where
  "assign k v [] = [(k, v)]"
| "assign k v ((k', v') # kvs) = (if k' = k then (k, v) # kvs else (k', v') # assign k v kvs)"

text \<open>
  The value of an \<^verbatim>\<open>interface{}\<close> field filled by the JSON decoder, and of the elements
  of a \<^verbatim>\<open>[]interface{}\<close>: a JSON value. Numbers keep their literal text.
\<close>

datatype json =
    JNull
  | JBool bool
  | JNumber string
  | JString string
  | JArray "json list"
  | JObject "(string \<times> json) list"

record KeywordRestriction =
  kr_Type :: string
  kr_Value :: string

record KeywordsRestriction =
  Keyword :: "KeywordRestriction option list"

record WidgetComparisonItem =
  Geo :: gomap
  Time :: string
  ComplexKeywordsRestriction :: KeywordsRestriction
  OriginalTimeRangeForExploreURL :: string

record RequestOptions =
  Property :: string
  Backend :: string
  Category :: int

text \<open>
  \<^verbatim>\<open>WidgetResponse\<close>, the sub-request embedded in a widget. Its own \<^verbatim>\<open>Geo\<close> and
  \<^verbatim>\<open>Time\<close> fields are prefixed here, since \<^verbatim>\<open>WidgetComparisonItem\<close> has fields of
  the same names. \<^verbatim>\<open>CompItem\<close> is a slice of pointers: \<open>None\<close> is a nil pointer.
\<close>

record WidgetResponse =
  wr_Geo :: json
  wr_Time :: string
  Resolution :: string
  Locale :: string
  Restriction :: WidgetComparisonItem
  CompItem :: "WidgetComparisonItem option list"
  RequestOpt :: RequestOptions
  KeywordType :: string
  Metric :: "string list"
  Language :: string
  TrendinessSettings :: gomap
  DataMode :: string
  UserConfig :: gomap
  UserCountryCode :: string

text \<open>
  \<^verbatim>\<open>ExploreWidget\<close>. \<^verbatim>\<open>Request\<close> is a pointer: \<open>None\<close> is nil.
\<close>

record ExploreWidget =
  Token :: string
  Type :: string
  Title :: string
  ID :: string
  Request :: "WidgetResponse option"

text \<open>
  \<^verbatim>\<open>ExploreResponse\<close> is a slice of widget pointers. The collections of the model hold
  the widgets themselves, so a nil element (on which every method below would panic) is
  not a member of any collection.
\<close>

type_synonym ExploreResponse = "ExploreWidget list"








text \<open>
  \<^verbatim>\<open>GetWidgetsByOrder\<close>: the loop over the collection with its accumulator \<open>out\<close>. The
  slice expression \<^verbatim>\<open>v.ID[ind+1:]\<close> is the whole identifier when there is no
  underscore (\<open>ind = -1\<close>).
\<close>

fun GetWidgetsByOrder_loop :: "ExploreResponse \<Rightarrow> int \<Rightarrow> ExploreResponse \<Rightarrow> ExploreResponse" where
  "GetWidgetsByOrder_loop [] i out = out"
| "GetWidgetsByOrder_loop (v # vs) i out =
     (if ID v = IntOverTimeWidgetID \<or> ID v = IntOverRegionID
      then GetWidgetsByOrder_loop vs i out
      else (let ind = LastIndex (ID v) ''_''
            in case ParseInt (drop (nat (ind + 1)) (ID v)) of
                 None \<Rightarrow> out
               | Some val \<Rightarrow>
                   if val = i then GetWidgetsByOrder_loop vs i (out @ [v])
                   else GetWidgetsByOrder_loop vs i out))"

definition GetWidgetsByOrder :: "ExploreResponse \<Rightarrow> int \<Rightarrow> ExploreResponse" where
  "GetWidgetsByOrder e i = GetWidgetsByOrder_loop e i []"


section \<open>The detail-fetch operations up to the serialization of the request\<close>

text \<open>
  Go errors: \<^verbatim>\<open>errors.New(msg)\<close>, and \<^verbatim>\<open>fmt.Errorf\<close> with one \<^verbatim>\<open>%w\<close> verb, which
  wraps an error between a prefix and a suffix text. \<open>Error\<close> is the message,
  \<open>Is\<close> is \<^verbatim>\<open>errors.Is\<close> (two \<^verbatim>\<open>errors.New\<close> values are told apart by their text).
\<close>

datatype error = New string | Errorf string error string

fun Error :: "error \<Rightarrow> string" where
  "Error (New msg) = msg"
| "Error (Errorf pre err suf) = pre @ Error err @ suf"


definition errParsing :: string where
  "errParsing = ''failed to parse json''"

definition errInvalidRequest :: string where
  "errInvalidRequest = ''invalid request param''"

definition errCreateRequest :: string where
  "errCreateRequest = ''failed to create request''"

definition errDoRequest :: string where
  "errDoRequest = ''failed to perform request''"

definition ErrRequestFailed :: error where
  "ErrRequestFailed = New ''failed to perform http request''"

definition ErrInvalidWidgetType :: error where
  "ErrInvalidWidgetType = New ''invalid widget type''"

text \<open>
  An operation either returns an error or panics; \<open>Panic\<close> carries the text of the
  run-time error.
\<close>

datatype failure = Returned error | Panic string

definition nilDereference :: string where
  "nilDereference = ''runtime error: invalid memory address or nil pointer dereference''"

definition nilMapAssignment :: string where
  "nilMapAssignment = ''assignment to entry in nil map''"

text \<open>
  Each of the three operations below is the part of the Go function of the same name
  that comes before \<^verbatim>\<open>json.Marshal(w.Request)\<close>: the check of the identifier and the
  writes to the widget. The widget is passed by pointer, so the writes are visible to
  the caller; the model returns the widget as it is when the request is serialized.
  All returns and panics of these parts happen before the first write. The pointer
  \<^verbatim>\<open>w\<close> itself is taken to be non-nil.
\<close>

text \<open>
  The loop of \<^verbatim>\<open>InterestOverTime\<close>:
  \<^verbatim>\<open>
  for i, v := range w.Request.CompItem {
      if v != nil && len(v.Geo) == 0 {
          w.Request.CompItem[i].Geo = map[string]string{"": ""}
      }
  }\<close>
  Two entries that point to the same item see the same result as two separate items,
  since the second visit finds the map already filled.
\<close>

primrec initGeo :: "WidgetComparisonItem option list \<Rightarrow> WidgetComparisonItem option list" where
  "initGeo [] = []"
| "initGeo (v # vs) =
     (case v of
        None \<Rightarrow> None
      | Some item \<Rightarrow> if len_map (Geo item) = 0 then Some (item\<lparr>Geo := Some [([], [])]\<rparr>) else Some item)
     # initGeo vs"

definition InterestOverTime :: "ExploreWidget \<Rightarrow> failure + ExploreWidget" where
  "InterestOverTime w =
     (if \<not> HasPrefix (ID w) IntOverTimeWidgetID then Inl (Returned ErrInvalidWidgetType)
      else (case Request w of
              None \<Rightarrow> Inl (Panic nilDereference)
            | Some req \<Rightarrow> Inr (w\<lparr>Request := Some (req\<lparr>CompItem := initGeo (CompItem req)\<rparr>)\<rparr>)))"

definition InterestByLocation :: "ExploreWidget \<Rightarrow> failure + ExploreWidget" where
  "InterestByLocation w =
     (if \<not> HasPrefix (ID w) IntOverRegionID then Inl (Returned ErrInvalidWidgetType)
      else (case Request w of
              None \<Rightarrow> Inl (Panic nilDereference)
            | Some req \<Rightarrow>
                if length (CompItem req) > 1
                then Inr (w\<lparr>Request := Some (req\<lparr>DataMode := compareDataMode\<rparr>)\<rparr>)
                else Inr w))"

definition Related :: "ExploreWidget \<Rightarrow> failure + ExploreWidget" where
  "Related w =
     (if \<not> HasPrefix (ID w) RelatedQueriesID \<and> \<not> HasPrefix (ID w) RelatedTopicsID
      then Inl (Returned ErrInvalidWidgetType)
      else (case Request w of
              None \<Rightarrow> Inl (Panic nilDereference)
            | Some req \<Rightarrow>
                if len_map (Geo (Restriction req)) = 0
                then (case Geo (Restriction req) of
                        None \<Rightarrow> Inl (Panic nilMapAssignment)
                      | Some kvs \<Rightarrow>
                          Inr (w\<lparr>Request := Some (req\<lparr>Restriction :=
                                 (Restriction req)\<lparr>Geo := Some (assign [] [] kvs)\<rparr>\<rparr>)\<rparr>))
                else Inr w))"

text \<open>
  The \<^verbatim>\<open>geo\<close> field of \<^verbatim>\<open>WidgetComparisonItem\<close> is tagged \<^verbatim>\<open>omitempty\<close>:
  \<^verbatim>\<open>json.Marshal\<close> leaves the field out when the map has no entry (nil or empty), and
  writes it otherwise.
\<close>

definition geoOmitted :: "gomap \<Rightarrow> bool" where
  "geoOmitted m = (len_map m = 0)"


section \<open>Transport\<close>

text \<open>
  An \<^verbatim>\<open>http.Header\<close> maps a key to its list of values. The keys the package uses
  are in canonical form already. \<open>Add\<close> appends a value, \<open>Set\<close> replaces the
  values by one, \<open>Get\<close> is the first value or the empty string.
\<close>

type_synonym Header = "string \<Rightarrow> string list"

definition Add :: "Header \<Rightarrow> string \<Rightarrow> string \<Rightarrow> Header" where
  "Add h key v = h(key := h key @ [v])"

definition Set :: "Header \<Rightarrow> string \<Rightarrow> string \<Rightarrow> Header" where
  "Set h key v = h(key := [v])"

definition Get :: "Header \<Rightarrow> string \<Rightarrow> string" where
  "Get h key = (case h key of [] \<Rightarrow> [] | v # _ \<Rightarrow> v)"

definition headerKeyAccept :: string where
  "headerKeyAccept = ''Accept''"

definition headerKeyCookie :: string where
  "headerKeyCookie = ''Cookie''"

definition headerKeySetCookie :: string where
  "headerKeySetCookie = ''Set-Cookie''"

definition headerKeyContentType :: string where
  "headerKeyContentType = ''Content-Type''"

definition contentTypeJSON :: string where
  "contentTypeJSON = ''application/json''"

definition contentTypeForm :: string where
  "contentTypeForm = ''application/x-www-form-urlencoded;charset=UTF-8''"

definition StatusOK :: int where
  "StatusOK = 200"

definition StatusTooManyRequests :: int where
  "StatusTooManyRequests = 429"

text \<open>
  The request and the response, with the fields the client reads and writes. Reading
  the body of a response (\<^verbatim>\<open>io.ReadAll\<close>) gives its bytes or fails.
\<close>

record request =
  Method :: string
  URL :: string
  Header :: Header
  Body :: string

record response =
  StatusCode :: int
  Status :: string
  resp_Header :: Header
  resp_Body :: "error + string"

text \<open>
  \<^verbatim>\<open>HTTPDoer\<close>: the injected sender. \<^verbatim>\<open>Do\<close> returns a response pointer and an
  error, \<^verbatim>\<open>(*http.Response, error)\<close>: the first component is \<open>None\<close> for the nil
  pointer, the second is \<open>None\<close> for the nil error. The interface allows every
  combination of the two. The sender may keep state of its own (a mock counts its
  calls), so \<open>Do\<close> takes the state of the sender and returns the new one.
  \<^verbatim>\<open>gClient\<close> holds the sender, the session cookie and the debug flag; the default
  parameters and the two caches play no part in the transport.
\<close>

type_synonym 's HTTPDoer = "request \<Rightarrow> 's \<Rightarrow> (response option \<times> error option) \<times> 's"

record 's gClient =
  httpClient :: "'s HTTPDoer"
  cookie :: string
  debug :: bool

text \<open>
  What a transport operation leaves behind: the bytes it returns, or the error it
  returns, or the panic it ends with; the client (whose cookie it may have replaced);
  the state of the sender; and the requests handed to the sender, in order. A failed
  read of the body returns the error together with the bytes read so far; the callers
  drop those bytes, and so does \<open>ret\<close>.
\<close>

record 's outcome =
  ret :: "failure + string"
  client :: "'s gClient"
  doer :: 's
  sent :: "request list"

text \<open>\<^verbatim>\<open>%d\<close> of \<^verbatim>\<open>fmt\<close>: an integer in decimal.\<close>

function showDigits :: "int \<Rightarrow> string" where
  "showDigits n =
     (if n < 10 then [char_of (48 + n)] else showDigits (n div 10) @ [char_of (48 + n mod 10)])"
  by pat_completeness auto
termination
  by (relation "measure nat") auto

declare showDigits.simps [simp del]

definition showInt :: "int \<Rightarrow> string" where
  "showInt i = (if i < 0 then CHR ''-'' # showDigits (- i) else showDigits i)"

text \<open>
  \<^verbatim>\<open>errReqDataF\<close> with its two arguments filled in:
  \<^verbatim>\<open>"request data: code = %d, status = %s"\<close>.
\<close>

definition errReqDataF :: "int \<Rightarrow> string \<Rightarrow> string" where
  "errReqDataF code status = ''request data: code = '' @ showInt code @ '', status = '' @ status"

text \<open>
  The end of \<^verbatim>\<open>do\<close> and \<^verbatim>\<open>doPost\<close>, on the last response received:
  \<^verbatim>\<open>
  if resp.StatusCode != http.StatusOK {
      return nil, fmt.Errorf("%w: "+errReqDataF, ErrRequestFailed, resp.StatusCode, resp.Status)
  }
  return io.ReadAll(resp.Body)\<close>
  \<open>requestFailed\<close> is the error built by \<^verbatim>\<open>fmt.Errorf\<close> there.
\<close>

definition requestFailed :: "response \<Rightarrow> error" where
  "requestFailed resp =
     Errorf [] ErrRequestFailed ('': '' @ errReqDataF (StatusCode resp) (Status resp))"

definition finish :: "response \<Rightarrow> failure + string" where
  "finish resp =
     (if StatusCode resp \<noteq> StatusOK then Inl (Returned (requestFailed resp))
      else (case resp_Body resp of
              Inl err \<Rightarrow> Inl (Returned err)
            | Inr b \<Rightarrow> Inr b))"

text \<open>
  The part that \<^verbatim>\<open>do\<close> and \<^verbatim>\<open>doPost\<close> have in common, word for word, from the
  first \<^verbatim>\<open>c.httpClient.Do(r)\<close> to the end: the send, the cookie retry on status 429,
  and the final status check. The debug logging has no effect on the result and is
  left out.

  After each send that returned no error the code registers
  \<^verbatim>\<open>defer func() { _ = resp.Body.Close() }()\<close>. The closure reads the variable
  \<^verbatim>\<open>resp\<close> when the function returns, and the resend assigns to that same variable
  (\<^verbatim>\<open>resp, err = c.httpClient.Do(r)\<close>). So when the resend returns an error and a nil
  response, \<^verbatim>\<open>return nil, err\<close> runs the closure registered after the first send on
  a nil pointer, and the operation panics instead of returning the error; when the
  resend returns an error and a response, that response is closed and the error is
  returned. A send that returns neither a response nor an error makes the next read of
  \<^verbatim>\<open>resp.StatusCode\<close> panic in the same way. Closing a body has no effect on the
  outcome otherwise.
\<close>

definition roundTrip :: "'s gClient \<Rightarrow> 's \<Rightarrow> request \<Rightarrow> 's outcome" where
  "roundTrip c s r =
     (case httpClient c r s of
        ((resp, err), s1) \<Rightarrow>
          (case err of
             Some e \<Rightarrow>
               \<lparr>ret = Inl (Returned (Errorf (errDoRequest @ '': '') e [])), client = c, doer = s1, sent = [r]\<rparr>
           | None \<Rightarrow>
               (case resp of
                  None \<Rightarrow> \<lparr>ret = Inl (Panic nilDereference), client = c, doer = s1, sent = [r]\<rparr>
                | Some resp1 \<Rightarrow>
                    if StatusCode resp1 = StatusTooManyRequests
                    then (let ck = Split (Get (resp_Header resp1) headerKeySetCookie) CHR '';''
                          in if length ck > 0
                             then (let c' = c\<lparr>cookie := ck ! 0\<rparr>;
                                       r' = r\<lparr>Header := Set (Header r) headerKeyCookie (ck ! 0)\<rparr>
                                   in case httpClient c' r' s1 of
                                        ((resp', err'), s2) \<Rightarrow>
                                          (case err' of
                                             Some e' \<Rightarrow>
                                               (case resp' of
                                                  None \<Rightarrow>
                                                    \<lparr>ret = Inl (Panic nilDereference), client = c', doer = s2, sent = [r, r']\<rparr>
                                                | Some resp2 \<Rightarrow>
                                                    \<lparr>ret = Inl (Returned e'), client = c', doer = s2, sent = [r, r']\<rparr>)
                                           | None \<Rightarrow>
                                               (case resp' of
                                                  None \<Rightarrow>
                                                    \<lparr>ret = Inl (Panic nilDereference), client = c', doer = s2, sent = [r, r']\<rparr>
                                                | Some resp2 \<Rightarrow>
                                                    \<lparr>ret = finish resp2, client = c', doer = s2, sent = [r, r']\<rparr>)))
                             else \<lparr>ret = finish resp1, client = c, doer = s1, sent = [r]\<rparr>)
                    else \<lparr>ret = finish resp1, client = c, doer = s1, sent = [r]\<rparr>)))"

text \<open>
  \<^verbatim>\<open>do\<close> and \<^verbatim>\<open>doPost\<close>. \<open>newRequestErr\<close> is the error that
  \<^verbatim>\<open>http.NewRequestWithContext\<close> returns for the context and the URL at hand, if any;
  \<open>u\<close> is \<^verbatim>\<open>u.String()\<close>. \<open>getRequest\<close> and \<open>postRequest\<close> are the request as it
  stands when it is first handed to the sender: built, with its \<^verbatim>\<open>Accept\<close> or
  \<^verbatim>\<open>Content-Type\<close> header, and with the \<^verbatim>\<open>Cookie\<close> header when the client holds
  a cookie.
\<close>

definition newRequest :: "string \<Rightarrow> string \<Rightarrow> string \<Rightarrow> request" where
  "newRequest method u body = \<lparr>Method = method, URL = u, Header = (\<lambda>key. []), Body = body\<rparr>"

definition withCookie :: "'s gClient \<Rightarrow> request \<Rightarrow> request" where
  "withCookie c r =
     (if length (cookie c) \<noteq> 0 then r\<lparr>Header := Add (Header r) headerKeyCookie (cookie c)\<rparr> else r)"

definition getRequest :: "'s gClient \<Rightarrow> string \<Rightarrow> request" where
  "getRequest c u =
     (let r0 = newRequest ''GET'' u [];
          r1 = r0\<lparr>Header := Add (Header r0) headerKeyAccept contentTypeJSON\<rparr>
      in withCookie c r1)"

definition postRequest :: "'s gClient \<Rightarrow> string \<Rightarrow> string \<Rightarrow> request" where
  "postRequest c u payload =
     (let r0 = newRequest ''POST'' u payload;
          r1 = r0\<lparr>Header := Add (Header r0) headerKeyContentType contentTypeForm\<rparr>
      in withCookie c r1)"

definition do :: "'s gClient \<Rightarrow> 's \<Rightarrow> error option \<Rightarrow> string \<Rightarrow> 's outcome" where
  "do c s newRequestErr u =
     (case newRequestErr of
        Some err \<Rightarrow>
          \<lparr>ret = Inl (Returned (Errorf (errCreateRequest @ '': '') err [])), client = c, doer = s, sent = []\<rparr>
      | None \<Rightarrow> roundTrip c s (getRequest c u))"

definition doPost :: "'s gClient \<Rightarrow> 's \<Rightarrow> error option \<Rightarrow> string \<Rightarrow> string \<Rightarrow> 's outcome" where
  "doPost c s newRequestErr u payload =
     (case newRequestErr of
        Some err \<Rightarrow>
          \<lparr>ret = Inl (Returned (Errorf (errCreateRequest @ '': '') err [])), client = c, doer = s, sent = []\<rparr>
      | None \<Rightarrow> roundTrip c s (postRequest c u payload))"

text \<open>
  The first \<^verbatim>\<open>;\<close>-delimited segment of the \<^verbatim>\<open>Set-Cookie\<close> header of a response
  (\<^verbatim>\<open>cookie[0]\<close> in the code), and a request with that segment set as its only
  \<^verbatim>\<open>Cookie\<close> header: the request of the resend.
\<close>

definition sessionCookie :: "response \<Rightarrow> string" where
  "sessionCookie resp = Split (Get (resp_Header resp) headerKeySetCookie) CHR '';'' ! 0"

definition resend :: "request \<Rightarrow> response \<Rightarrow> request" where
  "resend r resp = r\<lparr>Header := Set (Header r) headerKeyCookie (sessionCookie resp)\<rparr>"

section \<open>The batch-response extractor\<close>

text \<open>
  \<^verbatim>\<open>json.Unmarshal(data, &v)\<close> with \<^verbatim>\<open>v\<close> a nil \<^verbatim>\<open>[]interface{}\<close>. The JSON grammar
  is the library's and is a parameter here: \<open>dec\<close> reads a text as a JSON value, or
  fails. On top of it, the library stores an array as the slice of its elements, leaves
  the slice nil on \<^verbatim>\<open>null\<close>, and returns a type error on every other value. The
  texts of the two library errors are placeholders: the extractor only logs them.
\<close>

definition Unmarshal :: "(string \<Rightarrow> json option) \<Rightarrow> string \<Rightarrow> error + json list" where
  "Unmarshal dec s =
     (case dec s of
        None \<Rightarrow> Inl (New ''json: syntax error'')
      | Some JNull \<Rightarrow> Inr []
      | Some (JArray vs) \<Rightarrow> Inr vs
      | Some _ \<Rightarrow> Inl (New ''json: cannot unmarshal into Go value of type []interface {}''))"

text \<open>
  The innermost loop of \<^verbatim>\<open>extractJSONFromResponse\<close>:
  \<^verbatim>\<open>
  for _, item := range items {
      if itemArr, ok := item.([]interface{}); ok && len(itemArr) > 0 {
          if topic, ok := itemArr[0].(string); ok {
              result = append(result, topic)
          }
      }
  }\<close>
\<close>

fun itemsLoop :: "json list \<Rightarrow> string list \<Rightarrow> string list" where
  "itemsLoop [] result = result"
| "itemsLoop (item # items) result =
     (case item of
        JArray itemArr \<Rightarrow>
          if length itemArr > 0
          then (case itemArr ! 0 of
                  JString topic \<Rightarrow> itemsLoop items (result @ [topic])
                | _ \<Rightarrow> itemsLoop items result)
          else itemsLoop items result
      | _ \<Rightarrow> itemsLoop items result)"

text \<open>
  The closure run on one trimmed line. It reads and appends to the variable
  \<^verbatim>\<open>result\<close> of the enclosing function, so it takes \<open>result\<close> and returns it with
  its error value (\<open>None\<close> is \<^verbatim>\<open>nil\<close>).
\<close>

definition parseLine :: "(string \<Rightarrow> json option) \<Rightarrow> string \<Rightarrow> string list \<Rightarrow> error option \<times> string list" where
  "parseLine dec trimmed result =
     (case Unmarshal dec trimmed of
        Inl err \<Rightarrow> (Some err, result)
      | Inr intermediate \<Rightarrow>
          if length intermediate > 2
          then (case intermediate ! 0 of
                  JArray secondItem \<Rightarrow>
                    if length secondItem < 3 then (Some (New ''invalid intermediate format''), result)
                    else (case secondItem ! 2 of
                            JString jsonStr \<Rightarrow>
                              (case Unmarshal dec jsonStr of
                                 Inl err \<Rightarrow> (Some err, result)
                               | Inr data \<Rightarrow>
                                   if length data > 1
                                   then (case data ! 1 of
                                           JArray items \<Rightarrow> (None, itemsLoop items result)
                                         | _ \<Rightarrow> (Some (New ''invalid items format''), result))
                                   else (None, result))
                          | _ \<Rightarrow> (Some (New ''invalid json string format''), result))
                | _ \<Rightarrow> (Some (New ''invalid intermediate format''), result))
          else (None, result))"

definition errNoValidJSON :: error where
  "errNoValidJSON = New ''no valid JSON found in response''"

text \<open>
  The loop over the lines, with \<open>result\<close> carried from line to line as the Go variable
  is, and \<^verbatim>\<open>extractJSONFromResponse\<close> itself.
\<close>

fun linesLoop :: "(string \<Rightarrow> json option) \<Rightarrow> string list \<Rightarrow> string list \<Rightarrow> error + string list" where
  "linesLoop dec [] result = Inl errNoValidJSON"
| "linesLoop dec (line # rest) result =
     (let trimmed = TrimSpace line
      in if HasPrefix trimmed ''['' \<and> HasSuffix trimmed '']''
         then (case parseLine dec trimmed result of
                 (Some parseErr, result') \<Rightarrow> linesLoop dec rest result'
               | (None, result') \<Rightarrow>
                   if length result' > 0 then Inr result' else linesLoop dec rest result')
         else linesLoop dec rest result)"

definition extractJSONFromResponse :: "(string \<Rightarrow> json option) \<Rightarrow> string \<Rightarrow> error + string list" where
  "extractJSONFromResponse dec text = linesLoop dec (Split text CHR 0x0A) []"

text \<open>
  What one line contributes when the scan reaches it with an empty \<open>result\<close>: nothing
  when it is not bracketed or its decoding fails, the topics found otherwise.
\<close>

definition lineYield :: "(string \<Rightarrow> json option) \<Rightarrow> string \<Rightarrow> string list" where
  "lineYield dec line =
     (let trimmed = TrimSpace line
      in if HasPrefix trimmed ''['' \<and> HasSuffix trimmed '']''
         then (case parseLine dec trimmed [] of
                 (Some parseErr, result') \<Rightarrow> []
               | (None, result') \<Rightarrow> result')
         else [])"

text \<open>The topics of a list of items: the first element of every item that is a non-empty
  array starting with a string.\<close>

fun topicOf :: "json \<Rightarrow> string list" where
  "topicOf (JArray (JString topic # others)) = [topic]"
| "topicOf other = []"

definition topics :: "json list \<Rightarrow> string list" where
  "topics items = concat (map topicOf items)"

subsection \<open>A JSON reader for the examples\<close>

text \<open>
  A reader for JSON texts, used to run the extractor on concrete responses. It follows
  the JSON grammar (white space, the three literals, numbers, strings with the
  two-character escapes, arrays, objects); \<^verbatim>\<open>\u\<close> escapes are not read and make the
  text invalid here. The first argument of \<open>parseValue\<close> bounds the depth of the calls.
\<close>

definition isWS :: "char \<Rightarrow> bool" where
  "isWS c = (c = CHR 0x20 \<or> c = CHR 0x09 \<or> c = CHR 0x0A \<or> c = CHR 0x0D)"

definition skipWS :: "string \<Rightarrow> string" where
  "skipWS s = dropWhile isWS s"

definition unescape :: "char \<Rightarrow> char option" where
  "unescape e =
     (if e = CHR 0x22 then Some (CHR 0x22)
      else if e = CHR 0x5C then Some (CHR 0x5C)
      else if e = CHR ''/'' then Some (CHR ''/'')
      else if e = CHR ''b'' then Some (CHR 0x08)
      else if e = CHR ''f'' then Some (CHR 0x0C)
      else if e = CHR ''n'' then Some (CHR 0x0A)
      else if e = CHR ''r'' then Some (CHR 0x0D)
      else if e = CHR ''t'' then Some (CHR 0x09)
      else None)"

fun scanString :: "string \<Rightarrow> (string \<times> string) option" where
  "scanString [] = None"
| "scanString (c # cs) =
     (if c = CHR 0x22 then Some ([], cs)
      else if c = CHR 0x5C
      then (case cs of
              [] \<Rightarrow> None
            | e # cs' \<Rightarrow>
                (case unescape e of
                   None \<Rightarrow> None
                 | Some ch \<Rightarrow>
                     (case scanString cs' of None \<Rightarrow> None | Some (str, r) \<Rightarrow> Some (ch # str, r))))
      else if (of_char c :: nat) < 32 then None
      else (case scanString cs of None \<Rightarrow> None | Some (str, r) \<Rightarrow> Some (c # str, r)))"

definition isNumberChar :: "char \<Rightarrow> bool" where
  "isNumberChar c = (isDigit c \<or> c = CHR ''-'' \<or> c = CHR ''+'' \<or> c = CHR ''.'' \<or> c = CHR ''e'' \<or> c = CHR ''E'')"

definition validInt :: "string \<Rightarrow> bool" where
  "validInt s =
     (let t = (if take 1 s = ''-'' then drop 1 s else s)
      in t \<noteq> [] \<and> list_all isDigit t \<and> (length t = 1 \<or> take 1 t \<noteq> ''0''))"

definition validNumber :: "string \<Rightarrow> bool" where
  "validNumber lit =
     (let isE = (\<lambda>c. c = CHR ''e'' \<or> c = CHR ''E'');
          mant = takeWhile (\<lambda>c. \<not> isE c) lit;
          ex = dropWhile (\<lambda>c. \<not> isE c) lit;
          ip = takeWhile (\<lambda>c. c \<noteq> CHR ''.'') mant;
          fr = dropWhile (\<lambda>c. c \<noteq> CHR ''.'') mant;
          ed = (if take 1 (drop 1 ex) = ''+'' \<or> take 1 (drop 1 ex) = ''-'' then drop 2 ex else drop 1 ex)
      in validInt ip
         \<and> (fr = [] \<or> (drop 1 fr \<noteq> [] \<and> list_all isDigit (drop 1 fr)))
         \<and> (ex = [] \<or> (ed \<noteq> [] \<and> list_all isDigit ed)))"

fun parseValue :: "nat \<Rightarrow> string \<Rightarrow> (json \<times> string) option"
  and parseElements :: "nat \<Rightarrow> string \<Rightarrow> (json list \<times> string) option"
  and parseMembers :: "nat \<Rightarrow> string \<Rightarrow> ((string \<times> json) list \<times> string) option" where
  "parseValue 0 s = None"
| "parseValue (Suc n) s =
     (let t = skipWS s
      in if take 1 t = ''[''
         then (if take 1 (skipWS (drop 1 t)) = '']'' then Some (JArray [], drop 1 (skipWS (drop 1 t)))
               else (case parseElements n (drop 1 t) of
                       None \<Rightarrow> None
                     | Some (vs, r) \<Rightarrow> Some (JArray vs, r)))
         else if take 1 t = ''{''
         then (if take 1 (skipWS (drop 1 t)) = ''}'' then Some (JObject [], drop 1 (skipWS (drop 1 t)))
               else (case parseMembers n (drop 1 t) of
                       None \<Rightarrow> None
                     | Some (kvs, r) \<Rightarrow> Some (JObject kvs, r)))
         else if take 1 t = [CHR 0x22]
         then (case scanString (drop 1 t) of
                 None \<Rightarrow> None
               | Some (str, r) \<Rightarrow> Some (JString str, r))
         else if take 4 t = ''null'' then Some (JNull, drop 4 t)
         else if take 4 t = ''true'' then Some (JBool True, drop 4 t)
         else if take 5 t = ''false'' then Some (JBool False, drop 5 t)
         else (let lit = takeWhile isNumberChar t
               in if validNumber lit then Some (JNumber lit, dropWhile isNumberChar t) else None))"
| "parseElements 0 s = None"
| "parseElements (Suc n) s =
     (case parseValue n s of
        None \<Rightarrow> None
      | Some (v, r) \<Rightarrow>
          (let t = skipWS r
           in if take 1 t = '',''
              then (case parseElements n (drop 1 t) of
                      None \<Rightarrow> None
                    | Some (vs, r') \<Rightarrow> Some (v # vs, r'))
              else if take 1 t = '']'' then Some ([v], drop 1 t)
              else None))"
| "parseMembers 0 s = None"
| "parseMembers (Suc n) s =
     (let t = skipWS s
      in if take 1 t = [CHR 0x22]
         then (case scanString (drop 1 t) of
                 None \<Rightarrow> None
               | Some (key, r) \<Rightarrow>
                   if take 1 (skipWS r) = '':''
                   then (case parseValue n (drop 1 (skipWS r)) of
                           None \<Rightarrow> None
                         | Some (v, r') \<Rightarrow>
                             (let t' = skipWS r'
                              in if take 1 t' = '',''
                                 then (case parseMembers n (drop 1 t') of
                                         None \<Rightarrow> None
                                       | Some (kvs, r'') \<Rightarrow> Some ((key, v) # kvs, r''))
                                 else if take 1 t' = ''}'' then Some ([(key, v)], drop 1 t')
                                 else None))
                   else None)
         else None)"

definition readJSON :: "string \<Rightarrow> json option" where
  "readJSON s =
     (case parseValue (2 * length s + 2) s of
        None \<Rightarrow> None
      | Some (v, r) \<Rightarrow> if skipWS r = [] then Some v else None)"

section \<open>Values used in the examples\<close>

text \<open>A widget with the given identifier and token and no sub-request.\<close>

definition widget :: "string \<Rightarrow> string \<Rightarrow> ExploreWidget" where
  "widget i tok = \<lparr>Token = tok, Type = [], Title = [], ID = i, Request = None\<rparr>"

text \<open>The two bytes \<^verbatim>\<open>\"\<close> of an escaped quote inside a JSON string.\<close>

definition q :: string where
  "q = [CHR 0x5C, CHR 0x22]"

text \<open>
  The reading of a widget by \<^verbatim>\<open>GetWidgetsByOrder\<close>: the two identifiers it skips, the
  number it parses from the text after the last underscore, and whether the loop gets
  past the widget.
\<close>

definition unordered :: "ExploreWidget \<Rightarrow> bool" where
  "unordered v = (ID v = IntOverTimeWidgetID \<or> ID v = IntOverRegionID)"

definition orderOf :: "ExploreWidget \<Rightarrow> int option" where
  "orderOf v = ParseInt (drop (nat (LastIndex (ID v) ''_'' + 1)) (ID v))"

definition passable :: "ExploreWidget \<Rightarrow> bool" where
  "passable v = (if unordered v then True else orderOf v \<noteq> None)"

definition hasOrder :: "int \<Rightarrow> ExploreWidget \<Rightarrow> bool" where
  "hasOrder i v = (if unordered v then False else orderOf v = Some i)"


definition orderInput :: ExploreResponse where
  "orderInput = [widget ''RELATED_QUERIES_0'' [], widget ''RELATED_TOPICS_0'' [],
     widget ''RELATED_QUERIES_1'' [], widget ''RELATED_TOPICS_1'' [],
     widget ''TIMESERIES'' [], widget ''GEO_MAP'' []]"

text \<open>A comparison item with the given \<^verbatim>\<open>Geo\<close>, and a sub-request with the given
  restriction map and comparison items; every other field is the zero value.\<close>

definition compItem :: "gomap \<Rightarrow> WidgetComparisonItem" where
  "compItem g = \<lparr>Geo = g, Time = [], ComplexKeywordsRestriction = \<lparr>Keyword = []\<rparr>,
     OriginalTimeRangeForExploreURL = []\<rparr>"

definition subRequest :: "gomap \<Rightarrow> WidgetComparisonItem option list \<Rightarrow> WidgetResponse" where
  "subRequest g items = \<lparr>wr_Geo = JNull, wr_Time = [], Resolution = [], Locale = [],
     Restriction = compItem g, CompItem = items,
     RequestOpt = \<lparr>Property = [], Backend = [], Category = 0\<rparr>,
     KeywordType = [], Metric = [], Language = [], TrendinessSettings = None,
     DataMode = [], UserConfig = None, UserCountryCode = []\<rparr>"

definition widgetWith :: "string \<Rightarrow> WidgetResponse \<Rightarrow> ExploreWidget" where
  "widgetWith i req = \<lparr>Token = ''tok'', Type = [], Title = [], ID = i, Request = Some req\<rparr>"

text \<open>
  Senders in the manner of the mock of the tests. Their state counts the calls made.
  \<open>mockResponse\<close> is a response with a status code, a status text, the values of its
  \<^verbatim>\<open>Set-Cookie\<close> header and a body. \<open>always\<close> answers every call with the same
  response, \<open>alwaysFails\<close> with a nil response and the same error; \<open>firstThen\<close>
  answers the first call with one response and every later call with a second answer,
  which is any pair of a response pointer and an error.
\<close>

definition mockResponse :: "int \<Rightarrow> string \<Rightarrow> string list \<Rightarrow> string \<Rightarrow> response" where
  "mockResponse code status setCookie body =
     \<lparr>StatusCode = code, Status = status,
      resp_Header = (\<lambda>key. if key = headerKeySetCookie then setCookie else []),
      resp_Body = Inr body\<rparr>"


definition alwaysFails :: "error \<Rightarrow> nat HTTPDoer" where
  "alwaysFails err r n = ((None, Some err), Suc n)"

definition firstThen :: "response \<Rightarrow> response option \<times> error option \<Rightarrow> nat HTTPDoer" where
  "firstThen resp later r n = (if n = 0 then ((Some resp, None), Suc n) else (later, Suc n))"

definition newClient :: "nat HTTPDoer \<Rightarrow> nat gClient" where
  "newClient d = \<lparr>httpClient = d, cookie = [], debug = False\<rparr>"

text \<open>
  Two response lines. Both have, as first element, an array whose third element is the
  string \<^verbatim>\<open>[null,[["golang",1],["rust"]]]\<close>; the first line has three top-level
  elements, the second line only that one.
\<close>

definition inner :: string where
  \<open>inner = ''[null,[["golang",1],["rust"]]]''\<close>

definition innerEscaped :: string where
  \<open>innerEscaped = ''[null,[['' @ q @ ''golang'' @ q @ '',1],['' @ q @ ''rust'' @ q @ '']]]''\<close>

definition line3 :: string where
  \<open>line3 = ''[["wrb.fr","i0OFE","'' @ innerEscaped @ ''",null],["di",27],["af.httprm",26]]''\<close>

definition line1 :: string where
  \<open>line1 = ''[["wrb.fr","i0OFE","'' @ innerEscaped @ ''",null]]''\<close>



section \<open>Properties of the widget collection\<close>

text \<open>
  The loop of \<^verbatim>\<open>GetWidgetsByOrder\<close> appends to \<open>out\<close> the widgets of the wanted order
  found before the first widget it cannot get past.
\<close>

lemma loop_takeWhile:
  "GetWidgetsByOrder_loop e i out = out @ filter (hasOrder i) (takeWhile passable e)"
proof (induction e arbitrary: out)
  case Nil
  show ?case by simp
next
  case (Cons v vs)
  show ?case
  proof (cases "unordered v")
    case True
    then show ?thesis
      using Cons.IH [of out] by (simp add: unordered_def passable_def hasOrder_def)
  next
    case False
    show ?thesis
    proof (cases "orderOf v")
      case None
      with False show ?thesis
        by (simp add: unordered_def passable_def hasOrder_def orderOf_def)
    next
      case (Some val)
      with False show ?thesis
        using Cons.IH [of out] Cons.IH [of "out @ [v]"]
        by (simp add: unordered_def passable_def hasOrder_def orderOf_def)
    qed
  qed
qed

text \<open>
  C10. \<^verbatim>\<open>GetWidgetsByOrder(i)\<close>: when the collection is \<open>pre @ v # post\<close>, every widget
  of \<open>pre\<close> is passable and \<open>v\<close> is not (its identifier is neither \<^verbatim>\<open>TIMESERIES\<close> nor
  \<^verbatim>\<open>GEO_MAP\<close>, and \<^verbatim>\<open>strconv.ParseInt\<close> rejects the text after its last underscore),
  the result is the matches found in \<open>pre\<close>, and nothing of \<open>post\<close>. When every widget
  is passable, the result is exactly the widgets whose parsed suffix is \<open>i\<close>, the two
  unordered identifiers excluded, in their original order.
\<close>

theorem GetWidgetsByOrder_result:
  "(list_all passable pre \<and> \<not> passable v \<longrightarrow>
      GetWidgetsByOrder (pre @ v # post) i = filter (hasOrder i) pre)
   \<and> (list_all passable e \<longrightarrow> GetWidgetsByOrder e i = filter (hasOrder i) e)"
proof (intro conjI impI)
  assume "list_all passable pre \<and> \<not> passable v"
  then have "takeWhile passable (pre @ v # post) = pre"
    by (simp add: list_all_iff)
  then show "GetWidgetsByOrder (pre @ v # post) i = filter (hasOrder i) pre"
    by (simp only: GetWidgetsByOrder_def loop_takeWhile append_Nil)
next
  assume "list_all passable e"
  then have "takeWhile passable e = e"
    by (simp add: list_all_iff)
  then show "GetWidgetsByOrder e i = filter (hasOrder i) e"
    by (simp only: GetWidgetsByOrder_def loop_takeWhile append_Nil)
qed

text \<open>
  The theorem on the six widgets of the test, for order 1, and on a collection whose
  second widget has the suffix \<^verbatim>\<open>x\<close>: the later \<^verbatim>\<open>RELATED_TOPICS_1\<close> is lost.
\<close>

theorem GetWidgetsByOrder_result_witness:
  "GetWidgetsByOrder orderInput 1 = [widget ''RELATED_QUERIES_1'' [], widget ''RELATED_TOPICS_1'' []]
   \<and> GetWidgetsByOrder ([widget ''RELATED_QUERIES_1'' []] @ widget ''RELATED_QUERIES_x'' [] # [widget ''RELATED_TOPICS_1'' []]) 1
       = [widget ''RELATED_QUERIES_1'' []]"
proof -
  have a: "list_all passable orderInput" by code_simp
  have b: "filter (hasOrder 1) orderInput = [widget ''RELATED_QUERIES_1'' [], widget ''RELATED_TOPICS_1'' []]"
    by code_simp
  have c: "list_all passable [widget ''RELATED_QUERIES_1'' []] \<and> \<not> passable (widget ''RELATED_QUERIES_x'' [])"
    by code_simp
  have d: "filter (hasOrder 1) [widget ''RELATED_QUERIES_1'' []] = [widget ''RELATED_QUERIES_1'' []]"
    by code_simp
  note th = GetWidgetsByOrder_result [of "[widget ''RELATED_QUERIES_1'' []]" "widget ''RELATED_QUERIES_x'' []"
      "[widget ''RELATED_TOPICS_1'' []]" 1 orderInput]
  note e = th [THEN conjunct1, THEN mp, OF c]
  note f = th [THEN conjunct2, THEN mp, OF a]
  show ?thesis by (simp only: e f b d)
qed











section \<open>Properties of the detail-fetch operations\<close>

text \<open>The loop of \<^verbatim>\<open>InterestOverTime\<close> keeps the length of the slice, fills the
  map of every non-nil item that has no entry, and changes nothing else.\<close>

lemma initGeo_length: "length (initGeo vs) = length vs"
  by (induction vs) simp_all

lemma initGeo_nth:
  "k < length vs \<Longrightarrow> vs ! k = Some it \<Longrightarrow>
     initGeo vs ! k = Some (if len_map (Geo it) = 0 then it\<lparr>Geo := Some [([], [])]\<rparr> else it)"
proof (induction vs arbitrary: k)
  case Nil
  then show ?case by simp
next
  case (Cons v vs)
  show ?case
  proof (cases k)
    case 0
    with Cons.prems show ?thesis by simp
  next
    case (Suc m)
    with Cons.prems Cons.IH [of m] show ?thesis by simp
  qed
qed


text \<open>
  C1. The code does not do what the claim says when the map is nil: for a widget
  whose identifier starts with \<^verbatim>\<open>RELATED_QUERIES\<close> or \<^verbatim>\<open>RELATED_TOPICS\<close> and whose
  \<^verbatim>\<open>Request.Restriction.Geo\<close> is the nil map, \<^verbatim>\<open>len\<close> is 0 and the statement
  \<^verbatim>\<open>w.Request.Restriction.Geo[""] = ""\<close> assigns to an entry of a nil map, which
  panics. (\<^verbatim>\<open>InterestOverTime\<close> builds a new map instead and does not panic.)
\<close>

theorem Related_nil_geo_panics:
  "(HasPrefix (ID w) RelatedQueriesID \<or> HasPrefix (ID w) RelatedTopicsID)
     \<and> Request w = Some req \<and> Geo (Restriction req) = None
   \<longrightarrow> Related w = Inl (Panic nilMapAssignment)"
  by (auto simp add: Related_def len_map_def)

text \<open>The panic on a \<^verbatim>\<open>RELATED_QUERIES_0\<close> widget whose restriction has no \<^verbatim>\<open>geo\<close>.\<close>

theorem Related_nil_geo_panics_witness:
  "Related (widgetWith ''RELATED_QUERIES_0'' (subRequest None [])) = Inl (Panic nilMapAssignment)"
proof -
  have a: "(HasPrefix (ID (widgetWith ''RELATED_QUERIES_0'' (subRequest None []))) RelatedQueriesID
      \<or> HasPrefix (ID (widgetWith ''RELATED_QUERIES_0'' (subRequest None []))) RelatedTopicsID)
     \<and> Request (widgetWith ''RELATED_QUERIES_0'' (subRequest None [])) = Some (subRequest None [])
     \<and> Geo (Restriction (subRequest None [])) = None"
    by code_simp
  show ?thesis
    by (rule Related_nil_geo_panics [of "widgetWith ''RELATED_QUERIES_0'' (subRequest None [])"
          "subRequest None []", THEN mp, OF a])
qed

text \<open>
  C2, as stated, fails for the geo-map widget: \<^verbatim>\<open>InterestByLocation\<close> writes
  nothing to any \<^verbatim>\<open>Geo\<close>. A \<^verbatim>\<open>GEO_MAP\<close> widget whose one comparison item has a
  nil \<^verbatim>\<open>Geo\<close> reaches \<^verbatim>\<open>json.Marshal\<close> unchanged, and the field is left out.
\<close>

theorem InterestByLocation_geo_counterexample:
  "InterestByLocation (widgetWith ''GEO_MAP'' (subRequest None [Some (compItem None)]))
     = Inr (widgetWith ''GEO_MAP'' (subRequest None [Some (compItem None)]))
   \<and> geoOmitted (Geo (compItem None))"
  by code_simp

text \<open>
  C2, amended. The initialisation is done by \<^verbatim>\<open>InterestOverTime\<close> and by
  \<^verbatim>\<open>Related\<close>, not by \<^verbatim>\<open>InterestByLocation\<close>. For a widget with the
  \<^verbatim>\<open>TIMESERIES\<close> prefix and a sub-request, \<^verbatim>\<open>InterestOverTime\<close> reaches the
  serialization, and there every non-nil comparison item has a \<^verbatim>\<open>Geo\<close> that is
  written out: the map \<^verbatim>\<open>{"": ""}\<close> where it was unset (nil or empty), its own map
  otherwise. For a widget with a related prefix whose \<^verbatim>\<open>Restriction.Geo\<close> is not
  nil, \<^verbatim>\<open>Related\<close> reaches the serialization with a \<^verbatim>\<open>Geo\<close> that is written out:
  \<^verbatim>\<open>{"": ""}\<close> where the map was empty. \<^verbatim>\<open>InterestByLocation\<close> leaves the
  comparison items and the restriction as they are. (The nil map in \<^verbatim>\<open>Related\<close> is
  the subject of C1.)
\<close>

theorem geo_initialised_before_Marshal:
  "(HasPrefix (ID w) IntOverTimeWidgetID \<and> Request w = Some req \<longrightarrow>
      (\<exists>req'. InterestOverTime w = Inr (w\<lparr>Request := Some req'\<rparr>)
         \<and> length (CompItem req') = length (CompItem req)
         \<and> (\<forall>k it. k < length (CompItem req) \<and> CompItem req ! k = Some it \<longrightarrow>
              (\<exists>it'. CompItem req' ! k = Some it' \<and> \<not> geoOmitted (Geo it')
                  \<and> Geo it' = (if geoOmitted (Geo it) then Some [([], [])] else Geo it)))))
   \<and> ((HasPrefix (ID w) RelatedQueriesID \<or> HasPrefix (ID w) RelatedTopicsID)
        \<and> Request w = Some req \<and> Geo (Restriction req) = Some kvs \<longrightarrow>
      (\<exists>req'. Related w = Inr (w\<lparr>Request := Some req'\<rparr>)
         \<and> \<not> geoOmitted (Geo (Restriction req'))
         \<and> Geo (Restriction req') = (if kvs = [] then Some [([], [])] else Some kvs)))
   \<and> (InterestByLocation w = Inr w' \<and> Request w = Some req \<longrightarrow>
      (\<exists>req'. Request w' = Some req' \<and> CompItem req' = CompItem req
         \<and> Restriction req' = Restriction req))"
proof (intro conjI impI)
  assume a: "HasPrefix (ID w) IntOverTimeWidgetID \<and> Request w = Some req"
  let ?req' = "req\<lparr>CompItem := initGeo (CompItem req)\<rparr>"
  have 1: "InterestOverTime w = Inr (w\<lparr>Request := Some ?req'\<rparr>)"
    using a by (simp add: InterestOverTime_def)
  have 2: "length (CompItem ?req') = length (CompItem req)"
    by (simp add: initGeo_length)
  have 3: "\<exists>it'. CompItem ?req' ! k = Some it' \<and> \<not> geoOmitted (Geo it')
        \<and> Geo it' = (if geoOmitted (Geo it) then Some [([], [])] else Geo it)"
    if "k < length (CompItem req) \<and> CompItem req ! k = Some it" for k it
    using that initGeo_nth [of k "CompItem req" it]
    by (simp add: geoOmitted_def len_map_def)
  from 1 2 3 show "\<exists>req'. InterestOverTime w = Inr (w\<lparr>Request := Some req'\<rparr>)
         \<and> length (CompItem req') = length (CompItem req)
         \<and> (\<forall>k it. k < length (CompItem req) \<and> CompItem req ! k = Some it \<longrightarrow>
              (\<exists>it'. CompItem req' ! k = Some it' \<and> \<not> geoOmitted (Geo it')
                  \<and> Geo it' = (if geoOmitted (Geo it) then Some [([], [])] else Geo it)))"
    by blast
next
  assume a: "(HasPrefix (ID w) RelatedQueriesID \<or> HasPrefix (ID w) RelatedTopicsID)
        \<and> Request w = Some req \<and> Geo (Restriction req) = Some kvs"
  show "\<exists>req'. Related w = Inr (w\<lparr>Request := Some req'\<rparr>)
         \<and> \<not> geoOmitted (Geo (Restriction req'))
         \<and> Geo (Restriction req') = (if kvs = [] then Some [([], [])] else Some kvs)"
  proof (cases "kvs = []")
    case True
    with a have "Related w = Inr (w\<lparr>Request := Some (req\<lparr>Restriction :=
                                 (Restriction req)\<lparr>Geo := Some [([], [])]\<rparr>\<rparr>)\<rparr>)"
      by (auto simp add: Related_def len_map_def)
    with True show ?thesis
      by (intro exI [of _ "req\<lparr>Restriction := (Restriction req)\<lparr>Geo := Some [([], [])]\<rparr>\<rparr>"])
         (simp add: geoOmitted_def len_map_def)
  next
    case False
    with a have "Related w = Inr w"
      by (auto simp add: Related_def len_map_def)
    moreover from a have "w = w\<lparr>Request := Some req\<rparr>" by simp
    ultimately have "Related w = Inr (w\<lparr>Request := Some req\<rparr>)" by simp
    with a False show ?thesis
      by (intro exI [of _ req]) (simp add: geoOmitted_def len_map_def)
  qed
next
  assume "InterestByLocation w = Inr w' \<and> Request w = Some req"
  then show "\<exists>req'. Request w' = Some req' \<and> CompItem req' = CompItem req
         \<and> Restriction req' = Restriction req"
    by (auto simp add: InterestByLocation_def split: if_splits)
qed

text \<open>The theorem on a \<^verbatim>\<open>TIMESERIES\<close> widget whose first item has a nil map, and on a
  \<^verbatim>\<open>RELATED_TOPICS_0\<close> widget whose restriction has an empty map.\<close>

theorem geo_initialised_before_Marshal_witness:
  "(\<exists>req'. InterestOverTime (widgetWith ''TIMESERIES'' (subRequest None [Some (compItem None), None]))
        = Inr ((widgetWith ''TIMESERIES'' (subRequest None [Some (compItem None), None]))\<lparr>Request := Some req'\<rparr>)
      \<and> (\<exists>it'. CompItem req' ! 0 = Some it' \<and> \<not> geoOmitted (Geo it') \<and> Geo it' = Some [([], [])]))
   \<and> (\<exists>req'. Related (widgetWith ''RELATED_TOPICS_0'' (subRequest (Some []) []))
        = Inr ((widgetWith ''RELATED_TOPICS_0'' (subRequest (Some []) []))\<lparr>Request := Some req'\<rparr>)
      \<and> \<not> geoOmitted (Geo (Restriction req')) \<and> Geo (Restriction req') = Some [([], [])])"
proof -
  let ?w = "widgetWith ''TIMESERIES'' (subRequest None [Some (compItem None), None])"
  let ?r = "subRequest None [Some (compItem None), None]"
  let ?v = "widgetWith ''RELATED_TOPICS_0'' (subRequest (Some []) [])"
  let ?s = "subRequest (Some []) []"
  have a: "HasPrefix (ID ?w) IntOverTimeWidgetID \<and> Request ?w = Some ?r" by code_simp
  have b: "(0::nat) < length (CompItem ?r) \<and> CompItem ?r ! 0 = Some (compItem None)" by code_simp
  have c: "geoOmitted (Geo (compItem None))" by code_simp
  have d: "(HasPrefix (ID ?v) RelatedQueriesID \<or> HasPrefix (ID ?v) RelatedTopicsID)
        \<and> Request ?v = Some ?s \<and> Geo (Restriction ?s) = Some []" by code_simp
  note t1 = geo_initialised_before_Marshal [of ?w ?r "[]" ?w, THEN conjunct1, THEN mp, OF a]
  note t2 = geo_initialised_before_Marshal [of ?v ?s "[]" ?v,
      THEN conjunct2, THEN conjunct1, THEN mp, OF d]
  from t1 obtain req' where
    1: "InterestOverTime ?w = Inr (?w\<lparr>Request := Some req'\<rparr>)" and
    2: "\<forall>k it. k < length (CompItem ?r) \<and> CompItem ?r ! k = Some it \<longrightarrow>
              (\<exists>it'. CompItem req' ! k = Some it' \<and> \<not> geoOmitted (Geo it')
                  \<and> Geo it' = (if geoOmitted (Geo it) then Some [([], [])] else Geo it))"
    by blast
  from 2 b have "\<exists>it'. CompItem req' ! 0 = Some it' \<and> \<not> geoOmitted (Geo it')
        \<and> Geo it' = (if geoOmitted (Geo (compItem None)) then Some [([], [])] else Geo (compItem None))"
    by blast
  with c have 3: "\<exists>it'. CompItem req' ! 0 = Some it' \<and> \<not> geoOmitted (Geo it') \<and> Geo it' = Some [([], [])]"
    by simp
  from t2 have 4: "\<exists>req'. Related ?v = Inr (?v\<lparr>Request := Some req'\<rparr>)
      \<and> \<not> geoOmitted (Geo (Restriction req')) \<and> Geo (Restriction req') = Some [([], [])]"
    by simp
  from 1 3 4 show ?thesis by blast
qed

text \<open>
  C9, as stated, fails: \<^verbatim>\<open>InterestByLocation\<close> writes \<^verbatim>\<open>PERCENTAGES\<close> to
  \<^verbatim>\<open>w.Request.DataMode\<close> when the sub-request has more than one comparison item,
  and that is not a geo normalization.
\<close>

theorem InterestByLocation_DataMode_counterexample:
  "InterestByLocation (widgetWith ''GEO_MAP''
       (subRequest None [Some (compItem (Some [(''country'', ''US'')])), Some (compItem (Some [(''country'', ''US'')]))]))
     = Inr (widgetWith ''GEO_MAP''
       ((subRequest None [Some (compItem (Some [(''country'', ''US'')])), Some (compItem (Some [(''country'', ''US'')]))])
          \<lparr>DataMode := ''PERCENTAGES''\<rparr>))
   \<and> DataMode (subRequest None [Some (compItem (Some [(''country'', ''US'')])), Some (compItem (Some [(''country'', ''US'')]))])
       = []"
  by code_simp

text \<open>The loop of \<^verbatim>\<open>InterestOverTime\<close>, item by item.\<close>

lemma initGeo_map:
  "initGeo vs =
     map (\<lambda>v. case v of
                 None \<Rightarrow> None
               | Some it \<Rightarrow> Some (if len_map (Geo it) = 0 then it\<lparr>Geo := Some [([], [])]\<rparr> else it)) vs"
  by (induction vs) (simp_all split: option.split)

text \<open>
  C9, amended. The operations write to the widget in two ways: the geo normalization,
  and the \<^verbatim>\<open>DataMode\<close> of \<^verbatim>\<open>InterestByLocation\<close>. When an operation reaches the
  serialization, the widget is the one it was given with exactly these writes:
  for \<^verbatim>\<open>InterestOverTime\<close>, every non-nil comparison item whose \<^verbatim>\<open>Geo\<close> is unset
  (nil or empty) has the map \<^verbatim>\<open>{"": ""}\<close> for \<^verbatim>\<open>Geo\<close>, and every other item, with
  its \<^verbatim>\<open>Geo\<close>, is as it was; for \<^verbatim>\<open>InterestByLocation\<close>, \<^verbatim>\<open>DataMode\<close> is
  \<^verbatim>\<open>PERCENTAGES\<close> when there is more than one comparison item, and nothing is
  written otherwise; for \<^verbatim>\<open>Related\<close>, the \<^verbatim>\<open>Geo\<close> of the restriction is
  \<^verbatim>\<open>{"": ""}\<close> when it was the empty map, and nothing is written otherwise. (An
  operation that returns an error or panics before the serialization has written
  nothing.)
\<close>

theorem detail_fetch_frame:
  "(InterestOverTime w = Inr w' \<longrightarrow>
      (\<exists>req. Request w = Some req
         \<and> w' = w\<lparr>Request := Some (req\<lparr>CompItem :=
                  map (\<lambda>v. case v of
                              None \<Rightarrow> None
                            | Some it \<Rightarrow> Some (if len_map (Geo it) = 0 then it\<lparr>Geo := Some [([], [])]\<rparr> else it))
                      (CompItem req)\<rparr>)\<rparr>))
   \<and> (InterestByLocation w = Inr w' \<longrightarrow>
      (\<exists>req. Request w = Some req
         \<and> w' = (if length (CompItem req) > 1
                 then w\<lparr>Request := Some (req\<lparr>DataMode := compareDataMode\<rparr>)\<rparr>
                 else w)))
   \<and> (Related w = Inr w' \<longrightarrow>
      (\<exists>req. Request w = Some req
         \<and> w' = (if Geo (Restriction req) = Some []
                 then w\<lparr>Request := Some (req\<lparr>Restriction := (Restriction req)\<lparr>Geo := Some [([], [])]\<rparr>\<rparr>)\<rparr>
                 else w)))"
proof (intro conjI impI)
  assume a: "InterestOverTime w = Inr w'"
  then obtain req where r: "Request w = Some req"
    by (cases "Request w") (simp_all add: InterestOverTime_def split: if_splits)
  with a have "w' = w\<lparr>Request := Some (req\<lparr>CompItem := initGeo (CompItem req)\<rparr>)\<rparr>"
    by (simp add: InterestOverTime_def split: if_splits)
  with r have "Request w = Some req
         \<and> w' = w\<lparr>Request := Some (req\<lparr>CompItem :=
                  map (\<lambda>v. case v of
                              None \<Rightarrow> None
                            | Some it \<Rightarrow> Some (if len_map (Geo it) = 0 then it\<lparr>Geo := Some [([], [])]\<rparr> else it))
                      (CompItem req)\<rparr>)\<rparr>"
    by (simp add: initGeo_map)
  then show "\<exists>req. Request w = Some req
         \<and> w' = w\<lparr>Request := Some (req\<lparr>CompItem :=
                  map (\<lambda>v. case v of
                              None \<Rightarrow> None
                            | Some it \<Rightarrow> Some (if len_map (Geo it) = 0 then it\<lparr>Geo := Some [([], [])]\<rparr> else it))
                      (CompItem req)\<rparr>)\<rparr>"
    by (rule exI)
next
  assume a: "InterestByLocation w = Inr w'"
  then obtain req where r: "Request w = Some req"
    by (cases "Request w") (simp_all add: InterestByLocation_def split: if_splits)
  with a have "Request w = Some req
         \<and> w' = (if length (CompItem req) > 1
                 then w\<lparr>Request := Some (req\<lparr>DataMode := compareDataMode\<rparr>)\<rparr>
                 else w)"
    by (auto simp add: InterestByLocation_def split: if_splits)
  then show "\<exists>req. Request w = Some req
         \<and> w' = (if length (CompItem req) > 1
                 then w\<lparr>Request := Some (req\<lparr>DataMode := compareDataMode\<rparr>)\<rparr>
                 else w)"
    by (rule exI)
next
  assume a: "Related w = Inr w'"
  then obtain req where r: "Request w = Some req"
    by (cases "Request w") (simp_all add: Related_def split: if_splits)
  with a have "Request w = Some req
         \<and> w' = (if Geo (Restriction req) = Some []
                 then w\<lparr>Request := Some (req\<lparr>Restriction := (Restriction req)\<lparr>Geo := Some [([], [])]\<rparr>\<rparr>)\<rparr>
                 else w)"
    by (auto simp add: Related_def len_map_def split: if_splits option.splits)
  then show "\<exists>req. Request w = Some req
         \<and> w' = (if Geo (Restriction req) = Some []
                 then w\<lparr>Request := Some (req\<lparr>Restriction := (Restriction req)\<lparr>Geo := Some [([], [])]\<rparr>\<rparr>)\<rparr>
                 else w)"
    by (rule exI)
qed

text \<open>
  The three parts of the theorem, each on a widget of its kind that reaches the
  serialization: a \<^verbatim>\<open>TIMESERIES\<close> widget with an item without \<^verbatim>\<open>Geo\<close>, an item
  for the United States and a nil item; a \<^verbatim>\<open>GEO_MAP\<close> widget with two items; a
  \<^verbatim>\<open>RELATED_TOPICS_0\<close> widget whose restriction has the empty map.
\<close>

theorem detail_fetch_frame_witness:
  "InterestOverTime (widgetWith ''TIMESERIES''
        (subRequest None [Some (compItem None), Some (compItem (Some [(''country'', ''US'')])), None]))
     = Inr (widgetWith ''TIMESERIES''
        (subRequest None [Some (compItem (Some [([], [])])), Some (compItem (Some [(''country'', ''US'')])), None]))
   \<and> widgetWith ''TIMESERIES''
        (subRequest None [Some (compItem (Some [([], [])])), Some (compItem (Some [(''country'', ''US'')])), None])
     = (widgetWith ''TIMESERIES''
        (subRequest None [Some (compItem None), Some (compItem (Some [(''country'', ''US'')])), None]))
       \<lparr>Request := Some ((subRequest None [Some (compItem None), Some (compItem (Some [(''country'', ''US'')])), None])
          \<lparr>CompItem := map (\<lambda>v. case v of
                              None \<Rightarrow> None
                            | Some it \<Rightarrow> Some (if len_map (Geo it) = 0 then it\<lparr>Geo := Some [([], [])]\<rparr> else it))
             [Some (compItem None), Some (compItem (Some [(''country'', ''US'')])), None]\<rparr>)\<rparr>
   \<and> InterestByLocation (widgetWith ''GEO_MAP'' (subRequest None [Some (compItem None), Some (compItem None)]))
     = Inr (widgetWith ''GEO_MAP''
         ((subRequest None [Some (compItem None), Some (compItem None)])\<lparr>DataMode := ''PERCENTAGES''\<rparr>))
   \<and> widgetWith ''GEO_MAP'' ((subRequest None [Some (compItem None), Some (compItem None)])\<lparr>DataMode := ''PERCENTAGES''\<rparr>)
     = (widgetWith ''GEO_MAP'' (subRequest None [Some (compItem None), Some (compItem None)]))
       \<lparr>Request := Some ((subRequest None [Some (compItem None), Some (compItem None)])\<lparr>DataMode := compareDataMode\<rparr>)\<rparr>
   \<and> Related (widgetWith ''RELATED_TOPICS_0'' (subRequest (Some []) []))
     = Inr (widgetWith ''RELATED_TOPICS_0'' (subRequest (Some [([], [])]) []))
   \<and> widgetWith ''RELATED_TOPICS_0'' (subRequest (Some [([], [])]) [])
     = (widgetWith ''RELATED_TOPICS_0'' (subRequest (Some []) []))
       \<lparr>Request := Some ((subRequest (Some []) [])
          \<lparr>Restriction := (Restriction (subRequest (Some []) []))\<lparr>Geo := Some [([], [])]\<rparr>\<rparr>)\<rparr>"
proof -
  let ?ru = "subRequest None [Some (compItem None), Some (compItem (Some [(''country'', ''US'')])), None]"
  let ?u = "widgetWith ''TIMESERIES'' ?ru"
  let ?u' = "widgetWith ''TIMESERIES''
        (subRequest None [Some (compItem (Some [([], [])])), Some (compItem (Some [(''country'', ''US'')])), None])"
  let ?rw = "subRequest None [Some (compItem None), Some (compItem None)]"
  let ?w = "widgetWith ''GEO_MAP'' ?rw"
  let ?w' = "widgetWith ''GEO_MAP'' (?rw\<lparr>DataMode := ''PERCENTAGES''\<rparr>)"
  let ?rv = "subRequest (Some []) []"
  let ?v = "widgetWith ''RELATED_TOPICS_0'' ?rv"
  let ?v' = "widgetWith ''RELATED_TOPICS_0'' (subRequest (Some [([], [])]) [])"
  have a: "InterestOverTime ?u = Inr ?u'" by code_simp
  have b: "InterestByLocation ?w = Inr ?w'" by code_simp
  have c: "Related ?v = Inr ?v'" by code_simp
  have ru: "Request ?u = Some ?ru" "CompItem ?ru = [Some (compItem None), Some (compItem (Some [(''country'', ''US'')])), None]"
    by (simp_all add: widgetWith_def subRequest_def)
  have rw: "Request ?w = Some ?rw" "length (CompItem ?rw) > 1"
    by (simp_all add: widgetWith_def subRequest_def)
  have rv: "Request ?v = Some ?rv" "Geo (Restriction ?rv) = Some []"
    by (simp_all add: widgetWith_def subRequest_def compItem_def)
  from detail_fetch_frame [of ?u ?u', THEN conjunct1, THEN mp, OF a]
  obtain req where "Request ?u = Some req" and
    1: "?u' = ?u\<lparr>Request := Some (req\<lparr>CompItem :=
                  map (\<lambda>v. case v of
                              None \<Rightarrow> None
                            | Some it \<Rightarrow> Some (if len_map (Geo it) = 0 then it\<lparr>Geo := Some [([], [])]\<rparr> else it))
                      (CompItem req)\<rparr>)\<rparr>"
    by (elim exE conjE)
  with ru have r1: "req = ?ru" by simp
  from detail_fetch_frame [of ?w ?w', THEN conjunct2, THEN conjunct1, THEN mp, OF b]
  obtain req2 where "Request ?w = Some req2" and
    2: "?w' = (if length (CompItem req2) > 1
                 then ?w\<lparr>Request := Some (req2\<lparr>DataMode := compareDataMode\<rparr>)\<rparr>
                 else ?w)"
    by (elim exE conjE)
  with rw have r2: "req2 = ?rw" by simp
  from detail_fetch_frame [of ?v ?v', THEN conjunct2, THEN conjunct2, THEN mp, OF c]
  obtain req3 where "Request ?v = Some req3" and
    3: "?v' = (if Geo (Restriction req3) = Some []
                 then ?v\<lparr>Request := Some (req3\<lparr>Restriction := (Restriction req3)\<lparr>Geo := Some [([], [])]\<rparr>\<rparr>)\<rparr>
                 else ?v)"
    by (elim exE conjE)
  with rv have r3: "req3 = ?rv" by simp
  from 1 have e1: "?u' = ?u\<lparr>Request := Some (?ru\<lparr>CompItem :=
                  map (\<lambda>v. case v of
                              None \<Rightarrow> None
                            | Some it \<Rightarrow> Some (if len_map (Geo it) = 0 then it\<lparr>Geo := Some [([], [])]\<rparr> else it))
                      [Some (compItem None), Some (compItem (Some [(''country'', ''US'')])), None]\<rparr>)\<rparr>"
    unfolding r1 ru(2) .
  from 2 rw(2) have e2: "?w' = ?w\<lparr>Request := Some (?rw\<lparr>DataMode := compareDataMode\<rparr>)\<rparr>"
    unfolding r2 by simp
  from 3 rv(2) have e3: "?v' = ?v\<lparr>Request := Some (?rv\<lparr>Restriction := (Restriction ?rv)\<lparr>Geo := Some [([], [])]\<rparr>\<rparr>)\<rparr>"
    unfolding r3 by simp
  from a e1 b e2 c e3 show ?thesis by (intro conjI)
qed

section \<open>Properties of the transport\<close>

text \<open>
  \<^verbatim>\<open>strings.Split\<close> never returns an empty slice, so the test
  \<^verbatim>\<open>len(cookie) > 0\<close> in \<^verbatim>\<open>do\<close> and \<^verbatim>\<open>doPost\<close> always succeeds. The three
  ways through the common part: a first answer other than 429, an error of the sender
  on the first call, and the resend after a 429.
\<close>

lemma Split_nonempty: "0 < length (Split s c)"
  by (induction s) (simp_all split: list.split)

lemma Split_not_Nil: "Split s c \<noteq> []"
  using Split_nonempty [of s c] by auto


lemma roundTrip_error:
  "httpClient c r s = ((resp0, Some err), s1) \<Longrightarrow>
     roundTrip c s r =
       \<lparr>ret = Inl (Returned (Errorf (errDoRequest @ '': '') err [])), client = c, doer = s1, sent = [r]\<rparr>"
  by (simp add: roundTrip_def)

lemma roundTrip_retry:
  assumes "httpClient c r s = ((Some resp, None), s1)"
    and "StatusCode resp = StatusTooManyRequests"
    and "httpClient c (resend r resp) s1 = ((resp', err'), s2)"
  shows "roundTrip c s r =
     \<lparr>ret = (case err' of
               Some e \<Rightarrow> (case resp' of None \<Rightarrow> Inl (Panic nilDereference) | Some resp2 \<Rightarrow> Inl (Returned e))
             | None \<Rightarrow> (case resp' of None \<Rightarrow> Inl (Panic nilDereference) | Some resp2 \<Rightarrow> finish resp2)),
      client = c\<lparr>cookie := sessionCookie resp\<rparr>,
      doer = s2,
      sent = [r, resend r resp]\<rparr>"
  using assms
  by (simp add: roundTrip_def Let_def Split_not_Nil resend_def sessionCookie_def split: option.splits)




lemma do_is_roundTrip: "do c s None u = roundTrip c s (getRequest c u)"
  by (simp add: do_def)

lemma doPost_is_roundTrip: "doPost c s None u payload = roundTrip c s (postRequest c u payload)"
  by (simp add: doPost_def)



text \<open>
  C3. The code does not do what the claim says when the header is missing. Whenever
  the first answer has status 429, whatever its \<^verbatim>\<open>Set-Cookie\<close> header, the client
  stores the first \<^verbatim>\<open>;\<close>-delimited segment of the header as its cookie, sets it as
  the \<^verbatim>\<open>Cookie\<close> header of the request and sends the request a second time; when
  the sender answers the resend with a response, the result is decided by that
  response alone, whatever its status, and nothing more is sent. With no
  \<^verbatim>\<open>Set-Cookie\<close> header the segment is the empty string: the request is sent again
  all the same, and the stored cookie becomes empty.
\<close>

theorem retry_whatever_the_cookie:
  "(httpClient c (getRequest c u) s = ((Some resp, None), s')
      \<and> StatusCode resp = StatusTooManyRequests
      \<and> httpClient c (resend (getRequest c u) resp) s' = ((Some resp', None), s'')
    \<longrightarrow> do c s None u
          = \<lparr>ret = finish resp', client = c\<lparr>cookie := sessionCookie resp\<rparr>, doer = s'',
             sent = [getRequest c u, resend (getRequest c u) resp]\<rparr>)
   \<and> (httpClient c (postRequest c u payload) s = ((Some resp, None), s')
      \<and> StatusCode resp = StatusTooManyRequests
      \<and> httpClient c (resend (postRequest c u payload) resp) s' = ((Some resp', None), s'')
    \<longrightarrow> doPost c s None u payload
          = \<lparr>ret = finish resp', client = c\<lparr>cookie := sessionCookie resp\<rparr>, doer = s'',
             sent = [postRequest c u payload, resend (postRequest c u payload) resp]\<rparr>)
   \<and> Header (resend r resp) headerKeyCookie = [sessionCookie resp]
   \<and> (resp_Header resp headerKeySetCookie = [] \<longrightarrow> sessionCookie resp = [])"
proof (intro conjI impI)
  assume a: "httpClient c (getRequest c u) s = ((Some resp, None), s')
      \<and> StatusCode resp = StatusTooManyRequests
      \<and> httpClient c (resend (getRequest c u) resp) s' = ((Some resp', None), s'')"
  show "do c s None u
          = \<lparr>ret = finish resp', client = c\<lparr>cookie := sessionCookie resp\<rparr>, doer = s'',
             sent = [getRequest c u, resend (getRequest c u) resp]\<rparr>"
    unfolding do_is_roundTrip
    using roundTrip_retry [OF a [THEN conjunct1] a [THEN conjunct2, THEN conjunct1]
        a [THEN conjunct2, THEN conjunct2]]
    by simp
next
  assume a: "httpClient c (postRequest c u payload) s = ((Some resp, None), s')
      \<and> StatusCode resp = StatusTooManyRequests
      \<and> httpClient c (resend (postRequest c u payload) resp) s' = ((Some resp', None), s'')"
  show "doPost c s None u payload
          = \<lparr>ret = finish resp', client = c\<lparr>cookie := sessionCookie resp\<rparr>, doer = s'',
             sent = [postRequest c u payload, resend (postRequest c u payload) resp]\<rparr>"
    unfolding doPost_is_roundTrip
    using roundTrip_retry [OF a [THEN conjunct1] a [THEN conjunct2, THEN conjunct1]
        a [THEN conjunct2, THEN conjunct2]]
    by simp
next
  show "Header (resend r resp) headerKeyCookie = [sessionCookie resp]"
    by (simp add: resend_def Set_def)
next
  assume "resp_Header resp headerKeySetCookie = []"
  then show "sessionCookie resp = []"
    by (simp add: sessionCookie_def Get_def)
qed

text \<open>
  A first answer 429 without \<^verbatim>\<open>Set-Cookie\<close>, then 200: two calls, an empty
  cookie, and the body of the second answer.
\<close>

theorem retry_whatever_the_cookie_witness:
  "do (newClient (firstThen (mockResponse 429 ''429 Too Many Requests'' [] [])
        (Some (mockResponse 200 ''200 OK'' [] ''ok''), None))) 0 None ''https://example.com/test''
     = \<lparr>ret = Inr ''ok'',
        client = (newClient (firstThen (mockResponse 429 ''429 Too Many Requests'' [] [])
           (Some (mockResponse 200 ''200 OK'' [] ''ok''), None)))\<lparr>cookie := []\<rparr>,
        doer = Suc (Suc 0),
        sent = [getRequest (newClient (firstThen (mockResponse 429 ''429 Too Many Requests'' [] [])
                   (Some (mockResponse 200 ''200 OK'' [] ''ok''), None))) ''https://example.com/test'',
                resend (getRequest (newClient (firstThen (mockResponse 429 ''429 Too Many Requests'' [] [])
                   (Some (mockResponse 200 ''200 OK'' [] ''ok''), None))) ''https://example.com/test'')
                  (mockResponse 429 ''429 Too Many Requests'' [] [])]\<rparr>
   \<and> sessionCookie (mockResponse 429 ''429 Too Many Requests'' [] []) = []"
proof -
  let ?resp = "mockResponse 429 ''429 Too Many Requests'' [] []"
  let ?respB = "mockResponse 200 ''200 OK'' [] ''ok''"
  let ?c = "newClient (firstThen ?resp (Some ?respB, None))"
  let ?u = "''https://example.com/test''"
  have a: "httpClient ?c (getRequest ?c ?u) 0 = ((Some ?resp, None), Suc 0)
      \<and> StatusCode ?resp = StatusTooManyRequests
      \<and> httpClient ?c (resend (getRequest ?c ?u) ?resp) (Suc 0) = ((Some ?respB, None), Suc (Suc 0))"
    by (simp add: newClient_def firstThen_def mockResponse_def StatusTooManyRequests_def)
  have b: "resp_Header ?resp headerKeySetCookie = []"
    by (simp add: mockResponse_def)
  have f: "finish ?respB = Inr ''ok''"
    by (simp add: finish_def mockResponse_def StatusOK_def)
  note t = retry_whatever_the_cookie [where c = ?c and u = ?u and s = 0 and resp = ?resp and s' = "Suc 0"
      and resp' = ?respB and s'' = "Suc (Suc 0)" and payload = "[]" and r = "getRequest ?c ?u"]
  note k = t [THEN conjunct2, THEN conjunct2, THEN conjunct2, THEN mp, OF b]
  note d = t [THEN conjunct1, THEN mp, OF a, unfolded f k]
  from d k show ?thesis by (rule conjI)
qed

text \<open>
  C5. The code does what the claim says for the first send only: an error of the
  sender there is returned wrapped in \<^verbatim>\<open>failed to perform request\<close>, after one call.
  An error of the sender on the resend after a 429 ends the operation after the second
  call, but no wrapped error is returned: when the sender returns the error with a nil
  response, as \<^verbatim>\<open>http.Client\<close> and the mock of the tests do, the deferred
  \<^verbatim>\<open>resp.Body.Close()\<close> dereferences the nil response and the operation panics;
  when the sender returns the error together with a response, the error is returned
  as it is, without the wrapping.
\<close>

theorem sender_error_returned:
  "(httpClient c (getRequest c u) s = ((first, Some err), s')
    \<longrightarrow> do c s None u
          = \<lparr>ret = Inl (Returned (Errorf (errDoRequest @ '': '') err [])), client = c, doer = s',
             sent = [getRequest c u]\<rparr>)
   \<and> (httpClient c (postRequest c u payload) s = ((first, Some err), s')
    \<longrightarrow> doPost c s None u payload
          = \<lparr>ret = Inl (Returned (Errorf (errDoRequest @ '': '') err [])), client = c, doer = s',
             sent = [postRequest c u payload]\<rparr>)
   \<and> (httpClient c (getRequest c u) s = ((Some resp, None), s')
      \<and> StatusCode resp = StatusTooManyRequests
      \<and> httpClient c (resend (getRequest c u) resp) s' = ((later, Some err), s'')
    \<longrightarrow> do c s None u
          = \<lparr>ret = (case later of None \<Rightarrow> Inl (Panic nilDereference) | Some resp2 \<Rightarrow> Inl (Returned err)),
             client = c\<lparr>cookie := sessionCookie resp\<rparr>, doer = s'',
             sent = [getRequest c u, resend (getRequest c u) resp]\<rparr>)
   \<and> (httpClient c (postRequest c u payload) s = ((Some resp, None), s')
      \<and> StatusCode resp = StatusTooManyRequests
      \<and> httpClient c (resend (postRequest c u payload) resp) s' = ((later, Some err), s'')
    \<longrightarrow> doPost c s None u payload
          = \<lparr>ret = (case later of None \<Rightarrow> Inl (Panic nilDereference) | Some resp2 \<Rightarrow> Inl (Returned err)),
             client = c\<lparr>cookie := sessionCookie resp\<rparr>, doer = s'',
             sent = [postRequest c u payload, resend (postRequest c u payload) resp]\<rparr>)"
proof (intro conjI impI)
  assume a: "httpClient c (getRequest c u) s = ((first, Some err), s')"
  show "do c s None u
          = \<lparr>ret = Inl (Returned (Errorf (errDoRequest @ '': '') err [])), client = c, doer = s',
             sent = [getRequest c u]\<rparr>"
    unfolding do_is_roundTrip by (rule roundTrip_error [OF a])
next
  assume a: "httpClient c (postRequest c u payload) s = ((first, Some err), s')"
  show "doPost c s None u payload
          = \<lparr>ret = Inl (Returned (Errorf (errDoRequest @ '': '') err [])), client = c, doer = s',
             sent = [postRequest c u payload]\<rparr>"
    unfolding doPost_is_roundTrip by (rule roundTrip_error [OF a])
next
  assume a: "httpClient c (getRequest c u) s = ((Some resp, None), s')
      \<and> StatusCode resp = StatusTooManyRequests
      \<and> httpClient c (resend (getRequest c u) resp) s' = ((later, Some err), s'')"
  show "do c s None u
          = \<lparr>ret = (case later of None \<Rightarrow> Inl (Panic nilDereference) | Some resp2 \<Rightarrow> Inl (Returned err)),
             client = c\<lparr>cookie := sessionCookie resp\<rparr>, doer = s'',
             sent = [getRequest c u, resend (getRequest c u) resp]\<rparr>"
    unfolding do_is_roundTrip
    using roundTrip_retry [OF a [THEN conjunct1] a [THEN conjunct2, THEN conjunct1]
        a [THEN conjunct2, THEN conjunct2]]
    by simp
next
  assume a: "httpClient c (postRequest c u payload) s = ((Some resp, None), s')
      \<and> StatusCode resp = StatusTooManyRequests
      \<and> httpClient c (resend (postRequest c u payload) resp) s' = ((later, Some err), s'')"
  show "doPost c s None u payload
          = \<lparr>ret = (case later of None \<Rightarrow> Inl (Panic nilDereference) | Some resp2 \<Rightarrow> Inl (Returned err)),
             client = c\<lparr>cookie := sessionCookie resp\<rparr>, doer = s'',
             sent = [postRequest c u payload, resend (postRequest c u payload) resp]\<rparr>"
    unfolding doPost_is_roundTrip
    using roundTrip_retry [OF a [THEN conjunct1] a [THEN conjunct2, THEN conjunct1]
        a [THEN conjunct2, THEN conjunct2]]
    by simp
qed

text \<open>
  A sender that always fails: the message is \<^verbatim>\<open>failed to perform request: network error\<close>.
  A sender that answers 429 and then fails with a nil response: the operation panics
  after the second call. A sender that answers 429 and then fails with a response: the
  error comes back with the message \<^verbatim>\<open>network error\<close>.
\<close>

theorem sender_error_returned_witness:
  "ret (do (newClient (alwaysFails (New ''network error''))) 0 None ''https://example.com/test'')
     = Inl (Returned (Errorf (errDoRequest @ '': '') (New ''network error'') []))
   \<and> length (sent (do (newClient (alwaysFails (New ''network error''))) 0 None ''https://example.com/test'')) = 1
   \<and> Error (Errorf (errDoRequest @ '': '') (New ''network error'') []) = ''failed to perform request: network error''
   \<and> ret (do (newClient (firstThen (mockResponse 429 ''429 Too Many Requests'' [''abc=1; Path=/''] [])
        (None, Some (New ''network error'')))) 0 None ''https://example.com/test'')
     = Inl (Panic nilDereference)
   \<and> length (sent (do (newClient (firstThen (mockResponse 429 ''429 Too Many Requests'' [''abc=1; Path=/''] [])
        (None, Some (New ''network error'')))) 0 None ''https://example.com/test'')) = 2
   \<and> ret (doPost (newClient (firstThen (mockResponse 429 ''429 Too Many Requests'' [''abc=1; Path=/''] [])
        (Some (mockResponse 502 ''502 Bad Gateway'' [] []), Some (New ''network error'')))) 0 None
        ''https://example.com/test'' ''payload=test'')
     = Inl (Returned (New ''network error''))
   \<and> length (sent (doPost (newClient (firstThen (mockResponse 429 ''429 Too Many Requests'' [''abc=1; Path=/''] [])
        (Some (mockResponse 502 ''502 Bad Gateway'' [] []), Some (New ''network error'')))) 0 None
        ''https://example.com/test'' ''payload=test'')) = 2
   \<and> Error (New ''network error'') = ''network error''"
proof -
  let ?e = "New ''network error''"
  let ?u = "''https://example.com/test''"
  let ?p = "''payload=test''"
  let ?resp = "mockResponse 429 ''429 Too Many Requests'' [''abc=1; Path=/''] []"
  let ?respB = "mockResponse 502 ''502 Bad Gateway'' [] []"
  let ?c1 = "newClient (alwaysFails ?e)"
  let ?c2 = "newClient (firstThen ?resp (None, Some ?e))"
  let ?c3 = "newClient (firstThen ?resp (Some ?respB, Some ?e))"
  have a: "httpClient ?c1 (getRequest ?c1 ?u) 0 = ((None, Some ?e), Suc 0)"
    by (simp add: newClient_def alwaysFails_def)
  have b: "httpClient ?c2 (getRequest ?c2 ?u) 0 = ((Some ?resp, None), Suc 0)
      \<and> StatusCode ?resp = StatusTooManyRequests
      \<and> httpClient ?c2 (resend (getRequest ?c2 ?u) ?resp) (Suc 0) = ((None, Some ?e), Suc (Suc 0))"
    by (simp add: newClient_def firstThen_def mockResponse_def StatusTooManyRequests_def)
  have c: "httpClient ?c3 (postRequest ?c3 ?u ?p) 0 = ((Some ?resp, None), Suc 0)
      \<and> StatusCode ?resp = StatusTooManyRequests
      \<and> httpClient ?c3 (resend (postRequest ?c3 ?u ?p) ?resp) (Suc 0) = ((Some ?respB, Some ?e), Suc (Suc 0))"
    by (simp add: newClient_def firstThen_def mockResponse_def StatusTooManyRequests_def)
  have m: "Error (Errorf (errDoRequest @ '': '') ?e []) = ''failed to perform request: network error''"
    by code_simp
  have n: "Error ?e = ''network error''" by simp
  note t1 = sender_error_returned [where c = ?c1 and u = ?u and s = 0 and first = None and err = ?e
      and s' = "Suc 0" and payload = "[]" and resp = ?resp and later = None and s'' = "Suc 0",
      THEN conjunct1, THEN mp, OF a]
  note t2 = sender_error_returned [where c = ?c2 and u = ?u and s = 0 and first = None and err = ?e
      and s' = "Suc 0" and payload = "[]" and resp = ?resp and later = None and s'' = "Suc (Suc 0)",
      THEN conjunct2, THEN conjunct2, THEN conjunct1, THEN mp, OF b]
  note t3 = sender_error_returned [where c = ?c3 and u = ?u and s = 0 and first = None and err = ?e
      and s' = "Suc 0" and payload = ?p and resp = ?resp and later = "Some ?respB" and s'' = "Suc (Suc 0)",
      THEN conjunct2, THEN conjunct2, THEN conjunct2, THEN mp, OF c]
  have 1: "ret (do ?c1 0 None ?u) = Inl (Returned (Errorf (errDoRequest @ '': '') ?e []))"
    unfolding t1 by simp
  have 2: "length (sent (do ?c1 0 None ?u)) = 1"
    unfolding t1 by simp
  have 3: "ret (do ?c2 0 None ?u) = Inl (Panic nilDereference)"
    unfolding t2 by simp
  have 4: "length (sent (do ?c2 0 None ?u)) = 2"
    unfolding t2 by simp
  have 5: "ret (doPost ?c3 0 None ?u ?p) = Inl (Returned ?e)"
    unfolding t3 by simp
  have 6: "length (sent (doPost ?c3 0 None ?u ?p)) = 2"
    unfolding t3 by simp
  from 1 2 m 3 4 5 6 n show ?thesis by (intro conjI)
qed

section \<open>Properties of the batch-response extractor\<close>

text \<open>
  The innermost loop appends the topics of the items. The closure returns an error
  only before it has appended anything, so a line that fails leaves \<open>result\<close> as it
  was; and since the scan returns as soon as \<open>result\<close> is not empty, every line is
  reached with an empty \<open>result\<close>. The scan therefore returns the yield of the first
  line whose yield is not empty.
\<close>

lemma itemsLoop_topics: "itemsLoop items result = result @ topics items"
proof (induction items arbitrary: result)
  case Nil
  show ?case by (simp add: topics_def)
next
  case (Cons item items)
  have t: "topics (i # items) = topicOf i @ topics items" for i
    by (simp add: topics_def)
  show ?case
  proof (cases item)
    case (JArray itemArr)
    show ?thesis
    proof (cases itemArr)
      case Nil
      with JArray show ?thesis by (simp add: t Cons.IH)
    next
      case (Cons first others)
      with JArray show ?thesis
        by (cases first) (simp_all add: t Cons.IH)
    qed
  qed (simp_all add: t Cons.IH)
qed

lemma parseLine_error_keeps:
  "parseLine dec trimmed result = (Some e, result') \<Longrightarrow> result' = result"
  by (auto simp add: parseLine_def split: sum.splits if_splits json.splits)


lemma linesLoop_step:
  "linesLoop dec (line # rest) [] =
     (if lineYield dec line = [] then linesLoop dec rest [] else Inr (lineYield dec line))"
proof (cases "HasPrefix (TrimSpace line) ''['' \<and> HasSuffix (TrimSpace line) '']''")
  case False
  then show ?thesis by (auto simp add: lineYield_def Let_def)
next
  case True
  obtain err res where p: "parseLine dec (TrimSpace line) [] = (err, res)"
    by (cases "parseLine dec (TrimSpace line) []")
  show ?thesis
  proof (cases err)
    case None
    with True p show ?thesis by (simp add: lineYield_def Let_def)
  next
    case (Some e)
    with p have "res = []" by (simp add: parseLine_error_keeps)
    with True p Some show ?thesis by (simp add: lineYield_def Let_def)
  qed
qed

lemma linesLoop_first:
  "linesLoop dec ls [] =
     (case filter (\<lambda>y. y \<noteq> []) (map (lineYield dec) ls) of
        [] \<Rightarrow> Inl errNoValidJSON
      | y # ys \<Rightarrow> Inr y)"
proof (induction ls)
  case Nil
  show ?case by simp
next
  case (Cons line rest)
  show ?case unfolding linesLoop_step using Cons.IH by simp
qed


lemma parseLine_shaped:
  assumes "dec t = Some (JArray (JArray (a # b # JString jsonStr # more1) # x # y # more2))"
    and "dec jsonStr = Some (JArray (d # JArray items # more3))"
  shows "parseLine dec t [] = (None, topics items)"
  using assms by (simp add: parseLine_def Unmarshal_def itemsLoop_topics)

lemma topics_firsts:
  "topics (map (\<lambda>p. JArray (JString (fst p) # snd p)) pairs) = map fst pairs"
  by (induction pairs) (simp_all add: topics_def)










text \<open>
  C6, as stated, fails: the code decodes the nested string only when the top-level
  array has more than two elements (\<^verbatim>\<open>len(intermediate) > 2\<close>). A line whose
  top-level array has the shape of the claim, its first element being an array whose
  third element is the string \<^verbatim>\<open>[null,[["golang",1],["rust"]]]\<close>, but has this one
  element only, yields nothing, and the response made of that line gives the error.
\<close>

theorem extract_short_top_level_counterexample:
  "readJSON line1 = Some (JArray [JArray [JString ''wrb.fr'', JString ''i0OFE'', JString inner, JNull]])
   \<and> readJSON inner
       = Some (JArray [JNull, JArray [JArray [JString ''golang'', JNumber ''1''], JArray [JString ''rust'']]])
   \<and> extractJSONFromResponse readJSON line1 = Inl errNoValidJSON"
  by code_simp

text \<open>
  C6, amended. Whatever the JSON decoder makes of the texts: when the lines of the
  response before a given line yield nothing, and that line, trimmed, is bracketed and
  decodes to an array of more than two elements whose first element is an array whose
  third element is a string that decodes to an array whose second element is a list
  of items, with at least one topic among them, the operation returns the topics of
  these items, in order. The topic of an item is its first element when the item is
  a non-empty array that starts with a string; other items have none. So when every
  item is an array that starts with a string, the result is the first element of each
  item, in order.
\<close>

theorem extract_first_shaped_line:
  "(Split input (CHR 0x0A) = pre @ line # post
     \<and> list_all (\<lambda>l. lineYield dec l = []) pre
     \<and> HasPrefix (TrimSpace line) ''['' \<and> HasSuffix (TrimSpace line) '']''
     \<and> dec (TrimSpace line) = Some (JArray (JArray (a # b # JString jsonStr # others) # x # y # further))
     \<and> dec jsonStr = Some (JArray (d # JArray items # tail))
     \<and> topics items \<noteq> []
    \<longrightarrow> extractJSONFromResponse dec input = Inr (topics items))
   \<and> topics (map (\<lambda>p. JArray (JString (fst p) # snd p)) pairs) = map fst pairs"
proof (rule conjI, rule impI)
  assume h: "Split input (CHR 0x0A) = pre @ line # post
   \<and> list_all (\<lambda>l. lineYield dec l = []) pre
   \<and> HasPrefix (TrimSpace line) ''['' \<and> HasSuffix (TrimSpace line) '']''
   \<and> dec (TrimSpace line) = Some (JArray (JArray (a # b # JString jsonStr # others) # x # y # further))
   \<and> dec jsonStr = Some (JArray (d # JArray items # tail))
   \<and> topics items \<noteq> []"
  from h have d1: "dec (TrimSpace line)
      = Some (JArray (JArray (a # b # JString jsonStr # others) # x # y # further))"
    by simp
  from h have d2: "dec jsonStr = Some (JArray (d # JArray items # tail))"
    by simp
  have "parseLine dec (TrimSpace line) [] = (None, topics items)"
    by (rule parseLine_shaped [OF d1 d2])
  with h have y: "lineYield dec line = topics items"
    by (simp add: lineYield_def Let_def)
  from h have "filter (\<lambda>y. y \<noteq> []) (map (lineYield dec) pre) = []"
    by (simp add: list_all_iff filter_empty_conv)
  with h y have "filter (\<lambda>y. y \<noteq> []) (map (lineYield dec) (Split input (CHR 0x0A)))
      = topics items # filter (\<lambda>y. y \<noteq> []) (map (lineYield dec) post)"
    by simp
  then show "extractJSONFromResponse dec input = Inr (topics items)"
    unfolding extractJSONFromResponse_def linesLoop_first by simp
next
  show "topics (map (\<lambda>p. JArray (JString (fst p) # snd p)) pairs) = map fst pairs"
    by (rule topics_firsts)
qed

text \<open>
  A response of five lines: the prefix \<^verbatim>\<open>)]}'\<close>, an empty line, a length, the line of
  three elements with the inner items \<^verbatim>\<open>[["golang",1],["rust"]]\<close>, and another length.
  The result is \<^verbatim>\<open>["golang", "rust"]\<close>.
\<close>

theorem extract_first_shaped_line_witness:
  "extractJSONFromResponse readJSON
       ('')]}'' @ [CHR 0x27, CHR 0x0A, CHR 0x0A] @ ''123'' @ [CHR 0x0A] @ line3 @ [CHR 0x0A] @ ''25'')
     = Inr [''golang'', ''rust'']
   \<and> topics [JArray [JString ''golang'', JNumber ''1''], JArray [JString ''rust'']] = [''golang'', ''rust'']"
proof -
  let ?input = "'')]}'' @ [CHR 0x27, CHR 0x0A, CHR 0x0A] @ ''123'' @ [CHR 0x0A] @ line3 @ [CHR 0x0A] @ ''25''"
  let ?items = "[JArray [JString ''golang'', JNumber ''1''], JArray [JString ''rust'']]"
  have h: "Split ?input (CHR 0x0A) = ['')]}'' @ [CHR 0x27], [], ''123''] @ line3 # [''25'']
     \<and> list_all (\<lambda>l. lineYield readJSON l = []) ['')]}'' @ [CHR 0x27], [], ''123'']
     \<and> HasPrefix (TrimSpace line3) ''['' \<and> HasSuffix (TrimSpace line3) '']''
     \<and> readJSON (TrimSpace line3)
         = Some (JArray (JArray (JString ''wrb.fr'' # JString ''i0OFE'' # JString inner # [JNull])
                   # JArray [JString ''di'', JNumber ''27''] # JArray [JString ''af.httprm'', JNumber ''26''] # []))
     \<and> readJSON inner = Some (JArray (JNull # JArray ?items # []))
     \<and> topics ?items \<noteq> []"
    by code_simp
  have t: "topics ?items = [''golang'', ''rust'']" by code_simp
  note r = extract_first_shaped_line [where input = ?input and pre = "['')]}'' @ [CHR 0x27], [], ''123'']"
      and line = line3 and post = "[''25'']" and dec = readJSON
      and a = "JString ''wrb.fr''" and b = "JString ''i0OFE''" and jsonStr = inner and others = "[JNull]"
      and x = "JArray [JString ''di'', JNumber ''27'']" and y = "JArray [JString ''af.httprm'', JNumber ''26'']"
      and further = "[]" and d = JNull and items = ?items and tail = "[]" and pairs = "[]",
      THEN conjunct1, THEN mp, OF h, unfolded t]
  from r t show ?thesis by (rule conjI)
qed

end
